theory Spec2Isabelle
  imports Main "HOL-Library.Word"
begin

section \<open>Values of the Python program\<close>

text \<open>
  The proxy (\<^verbatim>\<open>examples/llm-proxies/openai-gpt4-proxy.py\<close>) works on the values that
  \<^verbatim>\<open>json.loads\<close> returns: \<^verbatim>\<open>None\<close>, \<^verbatim>\<open>bool\<close>, \<^verbatim>\<open>int\<close>, \<^verbatim>\<open>float\<close>, \<^verbatim>\<open>str\<close>, \<^verbatim>\<open>list\<close>
  and \<^verbatim>\<open>dict\<close> with \<^verbatim>\<open>str\<close> keys. A \<^verbatim>\<open>float\<close> is its IEEE 754 double, kept as the 64 bits;
  the code only passes floats on and tests them for truth. A \<^verbatim>\<open>dict\<close> is the list of its
  items in insertion order, each key once; a lookup takes the first item with the key. A
  \<^verbatim>\<open>str\<close> is a \<open>string\<close> whose characters are the code points U+0000 to U+00FF.
\<close>

datatype json =
    JNull
  | JBool bool
  | JInt int
  | JFloat "64 word"
  | JStr string
  | JArr "json list"
  | JObj "(string \<times> json) list"

text \<open>
  An exception is its class and the text that \<^verbatim>\<open>str(e)\<close> gives. \<open>Exception\<close> is the
  class the proxy raises itself; \<open>External\<close> carries the class name of an exception that
  comes from a library call outside the translator (body decoding, the outbound call).
  All of them are subclasses of Python's \<^verbatim>\<open>Exception\<close>.
\<close>

datatype exc_class =
    AttributeError
  | TypeError
  | KeyError
  | IndexError
  | Exception
  | External string

datatype error = Raise exc_class string

fun str_exc :: "error \<Rightarrow> string" where
  "str_exc (Raise c m) = m"

text \<open>A name as the interpreter's messages show it, between single quotes.\<close>

definition quoted :: "string \<Rightarrow> string" where
  "quoted s = [CHR 0x27] @ s @ [CHR 0x27]"

text \<open>Sequencing of two steps; an exception of the first step skips the second.\<close>

definition bind_res :: "error + 'a \<Rightarrow> ('a \<Rightarrow> error + 'b) \<Rightarrow> error + 'b" where
  "bind_res m f = (case m of Inl e \<Rightarrow> Inl e | Inr x \<Rightarrow> f x)"

text \<open>\<^verbatim>\<open>for x in xs: body\<close> over the items \<open>xs\<close>, threading the variables the body updates.\<close>

fun for_loop :: "('a \<Rightarrow> 's \<Rightarrow> error + 's) \<Rightarrow> 'a list \<Rightarrow> 's \<Rightarrow> error + 's" where
  "for_loop body [] s = Inr s"
| "for_loop body (x # xs) s =
     (case body x s of Inl e \<Rightarrow> Inl e | Inr s' \<Rightarrow> for_loop body xs s')"

subsection \<open>The built-in operations the proxy applies to JSON values\<close>

fun type_name :: "json \<Rightarrow> string" where
  "type_name JNull = ''NoneType''"
| "type_name (JBool b) = ''bool''"
| "type_name (JInt i) = ''int''"
| "type_name (JFloat w) = ''float''"
| "type_name (JStr s) = ''str''"
| "type_name (JArr xs) = ''list''"
| "type_name (JObj kvs) = ''dict''"

text \<open>Truth value of a value in \<^verbatim>\<open>if v:\<close>; both zeros of a float are false.\<close>

fun py_truthy :: "json \<Rightarrow> bool" where
  "py_truthy JNull = False"
| "py_truthy (JBool b) = b"
| "py_truthy (JInt i) = (i \<noteq> 0)"
| "py_truthy (JFloat w) = (w \<noteq> 0 \<and> w \<noteq> 0x8000000000000000)"
| "py_truthy (JStr s) = (s \<noteq> [])"
| "py_truthy (JArr xs) = (xs \<noteq> [])"
| "py_truthy (JObj kvs) = (kvs \<noteq> [])"

text \<open>\<^verbatim>\<open>v.get(k, d)\<close>: only a \<^verbatim>\<open>dict\<close> has the method.\<close>

fun py_get :: "json \<Rightarrow> string \<Rightarrow> json \<Rightarrow> error + json" where
  "py_get (JObj kvs) k d = Inr (case map_of kvs k of Some v \<Rightarrow> v | None \<Rightarrow> d)"
| "py_get v k d =
     Inl (Raise AttributeError (quoted (type_name v) @ '' object has no attribute '' @ quoted ''get''))"

text \<open>The items \<^verbatim>\<open>for x in v\<close> visits: list elements, dict keys, the characters of a str.\<close>

fun py_iter :: "json \<Rightarrow> error + json list" where
  "py_iter (JArr xs) = Inr xs"
| "py_iter (JObj kvs) = Inr (map (\<lambda>kv. JStr (fst kv)) kvs)"
| "py_iter (JStr s) = Inr (map (\<lambda>c. JStr [c]) s)"
| "py_iter v = Inl (Raise TypeError (quoted (type_name v) @ '' object is not iterable''))"

definition py_for :: "json \<Rightarrow> (json \<Rightarrow> 's \<Rightarrow> error + 's) \<Rightarrow> 's \<Rightarrow> error + 's" where
  "py_for v body s = bind_res (py_iter v) (\<lambda>xs. for_loop body xs s)"

text \<open>\<^verbatim>\<open>s in t\<close> on two strings: \<open>s\<close> occurs in \<open>t\<close> as a contiguous piece.\<close>

fun starts_with :: "string \<Rightarrow> string \<Rightarrow> bool" where
  "starts_with [] t = True"
| "starts_with (c # s) [] = False"
| "starts_with (c # s) (d # t) = (c = d \<and> starts_with s t)"

fun str_in :: "string \<Rightarrow> string \<Rightarrow> bool" where
  "str_in s [] = (s = [])"
| "str_in s (d # t) = (starts_with s (d # t) \<or> str_in s t)"

text \<open>\<^verbatim>\<open>k in v\<close> for a string constant \<open>k\<close>: key of a dict, piece of a str, element of a list.\<close>

fun py_contains :: "string \<Rightarrow> json \<Rightarrow> error + bool" where
  "py_contains k (JObj kvs) = Inr (k \<in> set (map fst kvs))"
| "py_contains k (JStr s) = Inr (str_in k s)"
| "py_contains k (JArr xs) = Inr (JStr k \<in> set xs)"
| "py_contains k v =
     Inl (Raise TypeError (''argument of type '' @ quoted (type_name v) @ '' is not iterable''))"

text \<open>\<^verbatim>\<open>v[k]\<close> for a string constant \<open>k\<close>.\<close>

fun py_getitem :: "json \<Rightarrow> string \<Rightarrow> error + json" where
  "py_getitem (JObj kvs) k =
     (case map_of kvs k of Some v \<Rightarrow> Inr v
      | None \<Rightarrow> Inl (Raise KeyError (quoted k)))"
| "py_getitem (JStr s) k = Inl (Raise TypeError (''string indices must be integers, not '' @ quoted ''str''))"
| "py_getitem (JArr xs) k = Inl (Raise TypeError ''list indices must be integers or slices, not str'')"
| "py_getitem v k =
     Inl (Raise TypeError (quoted (type_name v) @ '' object is not subscriptable''))"

text \<open>\<^verbatim>\<open>v[0]\<close>.\<close>

fun py_first :: "json \<Rightarrow> error + json" where
  "py_first (JArr []) = Inl (Raise IndexError ''list index out of range'')"
| "py_first (JArr (x # xs)) = Inr x"
| "py_first (JStr []) = Inl (Raise IndexError ''string index out of range'')"
| "py_first (JStr (c # s)) = Inr (JStr [c])"
| "py_first (JObj kvs) = Inl (Raise KeyError ''0'')"
| "py_first v =
     Inl (Raise TypeError (quoted (type_name v) @ '' object is not subscriptable''))"

text \<open>\<^verbatim>\<open>s += v\<close> on a str \<open>s\<close>.\<close>

fun py_iadd_str :: "string \<Rightarrow> json \<Rightarrow> error + string" where
  "py_iadd_str s (JStr t) = Inr (s @ t)"
| "py_iadd_str s v =
     Inl (Raise TypeError (''can only concatenate str (not '' @ [CHR 0x22] @ type_name v
                            @ [CHR 0x22] @ '') to str''))"

text \<open>
  \<^verbatim>\<open>str.strip()\<close>: the white space of \<^verbatim>\<open>str.isspace\<close> among the code points below 256 is
  TAB, LF, VT, FF, CR, FS, GS, RS, US, SPACE, NEL (0x85) and NBSP (0xA0).
\<close>

definition is_space :: "char \<Rightarrow> bool" where
  "is_space c = (c \<in> set [CHR 0x09, CHR 0x0A, CHR 0x0B, CHR 0x0C, CHR 0x0D, CHR 0x1C,
                        CHR 0x1D, CHR 0x1E, CHR 0x1F, CHR 0x20, CHR 0x85, CHR 0xA0])"

definition py_strip :: "string \<Rightarrow> string" where
  "py_strip s = rev (dropWhile is_space (rev (dropWhile is_space s)))"

text \<open>
  \<^verbatim>\<open>f"{v}"\<close>: a str is inserted as it is; for any other value the text is Python's
  \<^verbatim>\<open>str(v)\<close>, which the translator takes from the interpreter (\<open>rp\<close>).
\<close>

fun py_format :: "(json \<Rightarrow> string) \<Rightarrow> json \<Rightarrow> string" where
  "py_format rp (JStr s) = s"
| "py_format rp v = rp v"

text \<open>\<^verbatim>\<open>d[k] = v\<close> on a dict: replace the value of \<open>k\<close>, or add the item at the end.\<close>

fun dict_set :: "(string \<times> json) list \<Rightarrow> string \<Rightarrow> json \<Rightarrow> (string \<times> json) list" where
  "dict_set [] k v = [(k, v)]"
| "dict_set (p # ps) k v = (if fst p = k then (k, v) # ps else p # dict_set ps k v)"

section \<open>Request translation: \<^verbatim>\<open>_convert_gemini_to_openai\<close>\<close>

text \<open>Body of \<^verbatim>\<open>for part in parts\<close>; the state is \<^verbatim>\<open>message_content\<close>.\<close>

definition part_step :: "(json \<Rightarrow> string) \<Rightarrow> json \<Rightarrow> string \<Rightarrow> error + string" where
  "part_step rp part message_content =
     bind_res (py_contains ''text'' part) (\<lambda>has_text.
     bind_res (if has_text
               then bind_res (py_getitem part ''text'') (py_iadd_str message_content)
               else Inr message_content) (\<lambda>message_content1.
     bind_res (py_contains ''functionCall'' part) (\<lambda>has_call.
       if has_call
       then bind_res (py_getitem part ''functionCall'') (\<lambda>call.
            bind_res (py_get call ''name'' (JStr ''unknown'')) (\<lambda>name.
              Inr (message_content1 @ [CHR 0x0A] @ ''[Function Call: ''
                     @ py_format rp name @ '']'')))
       else Inr message_content1)))"

text \<open>Body of \<^verbatim>\<open>for content in contents\<close>; the state is \<^verbatim>\<open>messages\<close>.\<close>

definition content_step :: "(json \<Rightarrow> string) \<Rightarrow> json \<Rightarrow> json list \<Rightarrow> error + json list" where
  "content_step rp content messages =
     bind_res (py_get content ''role'' JNull) (\<lambda>role.
       if role = JStr ''user'' \<or> role = JStr ''model''
       then let openai_role = (if role = JStr ''model'' then JStr ''assistant'' else role) in
            bind_res (py_get content ''parts'' (JArr [])) (\<lambda>parts.
            bind_res (py_for parts (part_step rp) []) (\<lambda>message_content.
              if py_strip message_content \<noteq> []
              then Inr (messages @ [JObj [(''role'', openai_role),
                                          (''content'', JStr (py_strip message_content))]])
              else Inr messages))
       else Inr messages)"

text \<open>Body of \<^verbatim>\<open>for func_decl in function_declarations\<close>; the state is \<^verbatim>\<open>openai_tools\<close>.\<close>

definition func_decl_step :: "json \<Rightarrow> json list \<Rightarrow> error + json list" where
  "func_decl_step func_decl openai_tools =
     bind_res (py_get func_decl ''name'' (JStr ''unknown'')) (\<lambda>name.
     bind_res (py_get func_decl ''description'' (JStr [])) (\<lambda>description.
     bind_res (py_get func_decl ''parameters'' (JObj [])) (\<lambda>parameters.
       Inr (openai_tools @ [JObj [(''type'', JStr ''function''),
                                  (''function'', JObj [(''name'', name),
                                                       (''description'', description),
                                                       (''parameters'', parameters)])]]))))"

text \<open>Body of \<^verbatim>\<open>for tool in tools\<close>.\<close>

definition tool_step :: "json \<Rightarrow> json list \<Rightarrow> error + json list" where
  "tool_step tool openai_tools =
     bind_res (py_get tool ''functionDeclarations'' (JArr [])) (\<lambda>function_declarations.
       py_for function_declarations func_decl_step openai_tools)"

text \<open>
  The \<^verbatim>\<open>try\<close> block of \<^verbatim>\<open>_convert_gemini_to_openai\<close>. \<open>model\<close> is the configured
  \<^verbatim>\<open>OPENAI_MODEL\<close>; the default temperature \<^verbatim>\<open>0.1\<close> is the double \<open>0x3FB999999999999A\<close>.
\<close>

definition gemini_to_openai_try :: "(json \<Rightarrow> string) \<Rightarrow> string \<Rightarrow> json \<Rightarrow> error + json" where
  "gemini_to_openai_try rp model gemini_request =
     bind_res (py_get gemini_request ''contents'' (JArr [])) (\<lambda>contents.
     bind_res (py_get gemini_request ''tools'' (JArr [])) (\<lambda>tools.
     bind_res (py_get gemini_request ''generationConfig'' (JObj [])) (\<lambda>generation_config.
     bind_res (py_for contents (content_step rp) []) (\<lambda>messages.
     bind_res (py_get generation_config ''temperature'' (JFloat 0x3FB999999999999A)) (\<lambda>temperature.
     bind_res (py_get generation_config ''maxOutputTokens'' (JInt 4000)) (\<lambda>max_tokens.
       let openai_request = [(''model'', JStr model),
                             (''messages'', JArr messages),
                             (''stream'', JBool False),
                             (''temperature'', temperature),
                             (''max_tokens'', max_tokens)] in
       if py_truthy tools
       then bind_res (py_for tools tool_step []) (\<lambda>openai_tools.
              if openai_tools \<noteq> []
              then Inr (JObj (dict_set (dict_set openai_request ''tools'' (JArr openai_tools))
                                       ''tool_choice'' (JStr ''auto'')))
              else Inr (JObj openai_request))
       else Inr (JObj openai_request)))))))"

definition convert_gemini_to_openai :: "(json \<Rightarrow> string) \<Rightarrow> string \<Rightarrow> json \<Rightarrow> error + json" where
  "convert_gemini_to_openai rp model gemini_request =
     (case gemini_to_openai_try rp model gemini_request of
        Inl e \<Rightarrow> Inl (Raise Exception (''Error converting Gemini to OpenAI format: '' @ str_exc e))
      | Inr openai_request \<Rightarrow> Inr openai_request)"

section \<open>Response translation: \<^verbatim>\<open>_convert_openai_to_gemini\<close>\<close>

text \<open>
  \<^verbatim>\<open>json.loads(v)\<close> under the bare \<^verbatim>\<open>except\<close>: \<open>None\<close> when it raises. The parser of the
  standard library is \<open>loads\<close> (\<open>None\<close> for a text that is not valid JSON); a value that is
  not a str is a \<^verbatim>\<open>TypeError\<close>.
\<close>

fun json_loads :: "(string \<Rightarrow> json option) \<Rightarrow> json \<Rightarrow> json option" where
  "json_loads loads (JStr s) = loads s"
| "json_loads loads v = None"

text \<open>Body of \<^verbatim>\<open>for tool_call in message['tool_calls']\<close>; the state is \<^verbatim>\<open>parts\<close>.\<close>

definition tool_call_step ::
  "(string \<Rightarrow> json option) \<Rightarrow> json \<Rightarrow> json list \<Rightarrow> error + json list" where
  "tool_call_step loads tool_call parts =
     bind_res (py_get tool_call ''function'' (JObj [])) (\<lambda>function.
       let args = (case py_get function ''arguments'' (JStr ''{}'') of
                     Inl e \<Rightarrow> JObj []
                   | Inr arguments \<Rightarrow>
                       (case json_loads loads arguments of None \<Rightarrow> JObj [] | Some v \<Rightarrow> v)) in
       bind_res (py_get function ''name'' (JStr ''unknown'')) (\<lambda>name.
         Inr (parts @ [JObj [(''functionCall'', JObj [(''name'', name), (''args'', args)])]])))"

text \<open>
  Lines 208 to 228: the \<^verbatim>\<open>parts\<close> list of a message, the text first (when the content is
  true), then one part for each tool call.
\<close>

definition message_parts :: "(string \<Rightarrow> json option) \<Rightarrow> json \<Rightarrow> error + json list" where
  "message_parts loads message =
     bind_res (py_get message ''content'' JNull) (\<lambda>content.
     bind_res (if py_truthy content
               then bind_res (py_getitem message ''content'') (\<lambda>c. Inr [JObj [(''text'', c)]])
               else Inr []) (\<lambda>parts.
     bind_res (py_get message ''tool_calls'' JNull) (\<lambda>tool_calls.
       if py_truthy tool_calls
       then bind_res (py_getitem message ''tool_calls'') (\<lambda>tcs.
              py_for tcs (tool_call_step loads) parts)
       else Inr parts)))"

text \<open>Lines 233 and 245 to 249: the \<^verbatim>\<open>usageMetadata\<close> of the response.\<close>

definition usage_metadata :: "json \<Rightarrow> error + json" where
  "usage_metadata openai_response =
     bind_res (py_get openai_response ''usage'' (JObj [])) (\<lambda>usage.
     bind_res (py_get usage ''prompt_tokens'' (JInt 0)) (\<lambda>prompt_tokens.
     bind_res (py_get usage ''completion_tokens'' (JInt 0)) (\<lambda>completion_tokens.
     bind_res (py_get usage ''total_tokens'' (JInt 0)) (\<lambda>total_tokens.
       Inr (JObj [(''promptTokenCount'', prompt_tokens),
                  (''candidatesTokenCount'', completion_tokens),
                  (''totalTokenCount'', total_tokens)])))))"

text \<open>The \<^verbatim>\<open>try\<close> block of \<^verbatim>\<open>_convert_openai_to_gemini\<close>.\<close>

definition openai_to_gemini_try :: "(string \<Rightarrow> json option) \<Rightarrow> json \<Rightarrow> error + json" where
  "openai_to_gemini_try loads openai_response =
     bind_res (py_get openai_response ''choices'' (JArr [])) (\<lambda>choices.
       if \<not> py_truthy choices then Inl (Raise Exception ''No choices in OpenAI response'')
       else
     bind_res (py_first choices) (\<lambda>choice.
     bind_res (py_get choice ''message'' (JObj [])) (\<lambda>message.
     bind_res (message_parts loads message) (\<lambda>parts.
     bind_res (py_get choice ''finish_reason'' (JStr ''stop'')) (\<lambda>finish_reason.
       let gemini_finish_reason = (if finish_reason = JStr ''stop'' then ''STOP'' else ''OTHER'') in
     bind_res (usage_metadata openai_response) (\<lambda>usageMetadata.
       Inr (JObj [(''candidates'',
                    JArr [JObj [(''content'', JObj [(''parts'', JArr parts),
                                                    (''role'', JStr ''model'')]),
                                (''finishReason'', JStr gemini_finish_reason),
                                (''index'', JInt 0),
                                (''safetyRatings'', JArr [])]]),
                  (''usageMetadata'', usageMetadata)])))))))"

definition convert_openai_to_gemini :: "(string \<Rightarrow> json option) \<Rightarrow> json \<Rightarrow> error + json" where
  "convert_openai_to_gemini loads openai_response =
     (case openai_to_gemini_try loads openai_response of
        Inl e \<Rightarrow> Inl (Raise Exception (''Error converting OpenAI to Gemini format: '' @ str_exc e))
      | Inr gemini_response \<Rightarrow> Inr gemini_response)"

section \<open>The handler: \<^verbatim>\<open>do_POST\<close>\<close>

definition is_gemini_api_request :: "string \<Rightarrow> bool" where
  "is_gemini_api_request path =
     (str_in ''generateContent'' path \<or> str_in ''/v1/models/'' path \<or> str_in ''/v1beta/'' path)"

text \<open>
  What the handler does to the client connection. \<^verbatim>\<open>send_response\<close> and
  \<^verbatim>\<open>send_header\<close> of \<^verbatim>\<open>BaseHTTPRequestHandler\<close> only add lines to the handler's
  \<^verbatim>\<open>_headers_buffer\<close>; \<^verbatim>\<open>end_headers\<close> adds the blank line, writes the buffer to
  \<^verbatim>\<open>wfile\<close> and empties it, and leaves it as it is when the write raises. A
  \<open>Status_line\<close> stands for the status line with the \<^verbatim>\<open>Server\<close> and \<^verbatim>\<open>Date\<close> headers
  that \<^verbatim>\<open>send_response\<close> adds by itself. \<open>wfile\<close> is the list of the writes that reached
  the client, in order; \<open>Body v\<close> is the write of \<^verbatim>\<open>json.dumps(v).encode()\<close>.
\<close>

datatype hline = Status_line nat | Header_line string string | Blank_line

datatype chunk = Head "hline list" | Body json

record connection =
  headers_buffer :: "hline list"
  wfile :: "chunk list"

text \<open>
  A statement of the handler changes the connection and either completes (\<open>None\<close>) or
  raises. \<open>then_step\<close> is the sequence of two statements, \<open>with_value\<close> a statement
  that needs the value of a call which may raise.
\<close>

type_synonym step = "connection \<Rightarrow> error option \<times> connection"

definition then_step :: "step \<Rightarrow> step \<Rightarrow> step" where
  "then_step a b c = (case a c of (Some e, c') \<Rightarrow> (Some e, c') | (None, c') \<Rightarrow> b c')"

definition with_value :: "error + 'a \<Rightarrow> ('a \<Rightarrow> step) \<Rightarrow> step" where
  "with_value m k c = (case m of Inl e \<Rightarrow> (Some e, c) | Inr x \<Rightarrow> k x c)"

text \<open>
  The library calls with an effect outside the handler raise or not as the environment
  has it: \<open>failure\<close> is the exception the call raises at this point, if any. A
  \<^verbatim>\<open>print\<close> leaves the connection alone.
\<close>

definition print_line :: "error option \<Rightarrow> step" where
  "print_line failure c = (failure, c)"

definition send_response :: "nat \<Rightarrow> step" where
  "send_response code c = (None, c\<lparr>headers_buffer := headers_buffer c @ [Status_line code]\<rparr>)"

definition send_header :: "string \<Rightarrow> string \<Rightarrow> step" where
  "send_header keyword v c =
     (None, c\<lparr>headers_buffer := headers_buffer c @ [Header_line keyword v]\<rparr>)"

definition end_headers :: "error option \<Rightarrow> step" where
  "end_headers failure c =
     (let buffer = headers_buffer c @ [Blank_line] in
      case failure of
        Some e \<Rightarrow> (Some e, c\<lparr>headers_buffer := buffer\<rparr>)
      | None \<Rightarrow> (None, c\<lparr>headers_buffer := [], wfile := wfile c @ [Head buffer]\<rparr>))"

text \<open>\<^verbatim>\<open>self.wfile.write(json.dumps(v).encode())\<close>: nothing is written when it raises.\<close>

definition write_json :: "error option \<Rightarrow> json \<Rightarrow> step" where
  "write_json failure v c =
     (case failure of
        Some e \<Rightarrow> (Some e, c)
      | None \<Rightarrow> (None, c\<lparr>wfile := wfile c @ [Body v]\<rparr>))"

text \<open>
  The five statements that send a JSON response; they stand at lines 79 to 83, 107 to 111
  and 124 to 128, with the status 404, 200 and 500.
\<close>

definition write_response :: "nat \<Rightarrow> error option \<Rightarrow> error option \<Rightarrow> json \<Rightarrow> step" where
  "write_response code flush_failure write_failure v =
     then_step (send_response code)
    (then_step (send_header ''Content-Type'' ''application/json'')
    (then_step (send_header ''Access-Control-Allow-Origin'' ''*'')
    (then_step (end_headers flush_failure)
               (write_json write_failure v))))"

text \<open>\<^verbatim>\<open>json.loads\<close> under a bare \<^verbatim>\<open>except\<close>, from \<^verbatim>\<open>json.loads\<close> with its exception.\<close>

definition loads_of :: "(string \<Rightarrow> error + json) \<Rightarrow> string \<Rightarrow> json option" where
  "loads_of parse s = (case parse s of Inl e \<Rightarrow> None | Inr v \<Rightarrow> Some v)"

text \<open>
  The \<^verbatim>\<open>try\<close> block of \<^verbatim>\<open>do_POST\<close>, lines 77 to 111. \<open>read_body\<close> is the outcome of
  lines 87 and 88 (the \<^verbatim>\<open>Content-Length\<close> header, the read, \<^verbatim>\<open>decode('utf-8')\<close>),
  \<open>parse\<close> is \<^verbatim>\<open>json.loads\<close>, \<open>outbound\<close> is \<^verbatim>\<open>_make_openai_request\<close>, the call over
  the network, and \<open>raises l\<close> is the exception that the \<^verbatim>\<open>print\<close>, \<^verbatim>\<open>end_headers\<close> or
  \<^verbatim>\<open>wfile.write\<close> of source line \<open>l\<close> raises, if it does.
\<close>

definition post_try ::
  "(json \<Rightarrow> string) \<Rightarrow> string \<Rightarrow> (string \<Rightarrow> error + json) \<Rightarrow> (nat \<Rightarrow> error option) \<Rightarrow> string
     \<Rightarrow> error + string \<Rightarrow> (json \<Rightarrow> error + json) \<Rightarrow> step" where
  "post_try rp model parse raises path read_body outbound =
     (if \<not> is_gemini_api_request path
      then write_response 404 (raises 82) (raises 83)
             (JObj [(''error'', JStr ''Not a Gemini API endpoint'')])
      else
        with_value read_body (\<lambda>request_body.
        then_step (print_line (raises 90))
       (with_value (parse request_body) (\<lambda>gemini_request.
        with_value (convert_gemini_to_openai rp model gemini_request) (\<lambda>openai_request.
        then_step (print_line (raises 96))
       (with_value (outbound openai_request) (\<lambda>openai_response.
        with_value (convert_openai_to_gemini (loads_of parse) openai_response) (\<lambda>gemini_response.
        then_step (print_line (raises 104))
                  (write_response 200 (raises 110) (raises 111) gemini_response)))))))))"

text \<open>The \<^verbatim>\<open>except Exception as e\<close> block, lines 113 to 128.\<close>

definition post_except :: "(nat \<Rightarrow> error option) \<Rightarrow> error \<Rightarrow> step" where
  "post_except raises e =
     then_step (print_line (raises 114))
               (write_response 500 (raises 127) (raises 128)
                  (JObj [(''error'', JObj [(''code'', JInt 500),
                                           (''message'', JStr (''Proxy error: '' @ str_exc e)),
                                           (''status'', JStr ''INTERNAL_ERROR'')])]))"

text \<open>
  \<^verbatim>\<open>do_POST\<close> on a fresh connection: the connection as the handler leaves it, and
  whether the handler returns or an exception of the \<^verbatim>\<open>except\<close> block leaves it uncaught.
\<close>

datatype outcome = Returned | Uncaught error

definition do_POST ::
  "(json \<Rightarrow> string) \<Rightarrow> string \<Rightarrow> (string \<Rightarrow> error + json) \<Rightarrow> (nat \<Rightarrow> error option) \<Rightarrow> string
     \<Rightarrow> error + string \<Rightarrow> (json \<Rightarrow> error + json) \<Rightarrow> connection \<times> outcome" where
  "do_POST rp model parse raises path read_body outbound =
     (case post_try rp model parse raises path read_body outbound
             \<lparr>headers_buffer = [], wfile = []\<rparr> of
        (None, c) \<Rightarrow> (c, Returned)
      | (Some e, c) \<Rightarrow>
          (case post_except raises e c of
             (None, c') \<Rightarrow> (c', Returned)
           | (Some e', c') \<Rightarrow> (c', Uncaught e')))"

text \<open>The status codes of all status lines of a connection, written or still buffered.\<close>

fun line_codes :: "hline \<Rightarrow> nat list" where
  "line_codes (Status_line code) = [code]"
| "line_codes l = []"

fun chunk_lines :: "chunk \<Rightarrow> hline list" where
  "chunk_lines (Head ls) = ls"
| "chunk_lines (Body v) = []"

definition status_codes :: "connection \<Rightarrow> nat list" where
  "status_codes c = concat (map line_codes (concat (map chunk_lines (wfile c)) @ headers_buffer c))"

section \<open>Inputs of the examples and well-formed inputs\<close>

text \<open>
  Stand-ins for the two library functions in the examples: \<open>str_example\<close> for
  \<^verbatim>\<open>str(v)\<close> on a value that is not a str (no example formats such a value), and
  \<open>loads_example\<close> for \<^verbatim>\<open>json.loads\<close>, which knows the empty object and rejects
  every other text.
\<close>

definition str_example :: "json \<Rightarrow> string" where
  "str_example v = ''<'' @ type_name v @ ''>''"

definition loads_example :: "string \<Rightarrow> json option" where
  "loads_example s = (if s = ''{}'' then Some (JObj []) else None)"

text \<open>
  For the handler: \<open>parse_example\<close> is \<^verbatim>\<open>json.loads\<close> with its exception, on the two
  texts of the examples, \<^verbatim>\<open>{}\<close> and \<^verbatim>\<open>hello\<close> (any other text is rejected like the
  second); \<open>no_raise\<close> is the environment in which every print and write succeeds, and
  \<open>broken_pipe_at l\<close> the one in which the client is gone when line \<open>l\<close> writes.
  \<open>no_choices\<close> is an outbound call that returns a response without choices.
\<close>

definition parse_example :: "string \<Rightarrow> error + json" where
  "parse_example s =
     (if s = ''{}'' then Inr (JObj [])
      else Inl (Raise (External ''JSONDecodeError'') ''Expecting value: line 1 column 1 (char 0)''))"

definition no_raise :: "nat \<Rightarrow> error option" where
  "no_raise l = None"


definition no_choices :: "json \<Rightarrow> error + json" where
  "no_choices openai_request = Inr (JObj [(''choices'', JArr [])])"

text \<open>
  The shapes of section 3 of the specification, as predicates on JSON values. A field may
  be absent wherever the code gives \<^verbatim>\<open>get\<close> a default.
\<close>

fun is_str :: "json \<Rightarrow> bool" where
  "is_str (JStr s) = True"
| "is_str v = False"

fun is_dict :: "json \<Rightarrow> bool" where
  "is_dict (JObj kvs) = True"
| "is_dict v = False"

fun list_of :: "(json \<Rightarrow> bool) \<Rightarrow> json \<Rightarrow> bool" where
  "list_of P (JArr xs) = list_all P xs"
| "list_of P v = False"

definition absent_or :: "(json \<Rightarrow> bool) \<Rightarrow> (string \<times> json) list \<Rightarrow> string \<Rightarrow> bool" where
  "absent_or P d k = (case map_of d k of None \<Rightarrow> True | Some v \<Rightarrow> P v)"

fun source_part :: "json \<Rightarrow> bool" where
  "source_part (JObj p) = (absent_or is_str p ''text'' \<and> absent_or is_dict p ''functionCall'')"
| "source_part v = False"

fun source_content :: "json \<Rightarrow> bool" where
  "source_content (JObj c) = absent_or (list_of source_part) c ''parts''"
| "source_content v = False"

fun source_tool :: "json \<Rightarrow> bool" where
  "source_tool (JObj t) = absent_or (list_of is_dict) t ''functionDeclarations''"
| "source_tool v = False"

fun source_request :: "json \<Rightarrow> bool" where
  "source_request (JObj r) =
     (absent_or (list_of source_content) r ''contents''
      \<and> absent_or (list_of source_tool) r ''tools''
      \<and> absent_or is_dict r ''generationConfig'')"
| "source_request v = False"

fun target_tool_call :: "json \<Rightarrow> bool" where
  "target_tool_call (JObj tc) = absent_or is_dict tc ''function''"
| "target_tool_call v = False"

fun target_message :: "json \<Rightarrow> bool" where
  "target_message (JObj m) =
     absent_or (\<lambda>v. v = JNull \<or> list_of target_tool_call v) m ''tool_calls''"
| "target_message v = False"

fun target_choice :: "json \<Rightarrow> bool" where
  "target_choice (JObj c) = absent_or target_message c ''message''"
| "target_choice v = False"

fun target_response :: "json \<Rightarrow> bool" where
  "target_response (JObj r) =
     (absent_or (list_of target_choice) r ''choices'' \<and> absent_or is_dict r ''usage'')"
| "target_response v = False"

text \<open>
  The tool flattening as the specification words it (section 4.1, step 5): every
  \<^verbatim>\<open>functionDeclarations\<close> entry of every tool, in order, each as
  \<^verbatim>\<open>{type:"function", function:{name, description, parameters}}\<close> with the defaults
  \<^verbatim>\<open>"unknown"\<close>, \<^verbatim>\<open>""\<close> and the empty mapping.
\<close>

definition field_or :: "json \<Rightarrow> string \<Rightarrow> json \<Rightarrow> json" where
  "field_or v k d = (case v of JObj kvs \<Rightarrow> (case map_of kvs k of Some x \<Rightarrow> x | None \<Rightarrow> d) | _ \<Rightarrow> d)"

definition target_tool :: "json \<Rightarrow> json" where
  "target_tool decl =
     JObj [(''type'', JStr ''function''),
           (''function'', JObj [(''name'', field_or decl ''name'' (JStr ''unknown'')),
                                (''description'', field_or decl ''description'' (JStr [])),
                                (''parameters'', field_or decl ''parameters'' (JObj []))])]"

definition declarations :: "json \<Rightarrow> json list" where
  "declarations tool = (case field_or tool ''functionDeclarations'' (JArr []) of JArr ds \<Rightarrow> ds | _ \<Rightarrow> [])"

definition flattened_tools :: "json list \<Rightarrow> json list" where
  "flattened_tools tools = map target_tool (concat (map declarations tools))"

text \<open>The items of a field that holds a list; none when the field is absent.\<close>

definition items_or_none :: "(string \<times> json) list \<Rightarrow> string \<Rightarrow> json list" where
  "items_or_none d k = (case map_of d k of Some (JArr xs) \<Rightarrow> xs | _ \<Rightarrow> [])"

section \<open>Sequencing, loops, strings and dicts\<close>

lemma bind_res_Inl: "bind_res (Inl e) f = Inl e"
  by (simp add: bind_res_def)

lemma bind_res_Inr: "bind_res (Inr x) f = f x"
  by (simp add: bind_res_def)

lemma bind_res_eq_Inr:
  "bind_res m f = Inr y \<longleftrightarrow> (\<exists>x. m = Inr x \<and> f x = Inr y)"
  by (cases m) (simp_all add: bind_res_def)

lemma for_loop_append:
  "for_loop stp (xs @ ys) s = bind_res (for_loop stp xs s) (for_loop stp ys)"
  by (induction xs arbitrary: s) (simp_all add: bind_res_def split: sum.splits)

text \<open>An item whose step leaves the state as it is can be taken out of the loop.\<close>

lemma for_loop_skip:
  assumes "\<And>s. stp x s = Inr s"
  shows "for_loop stp (xs @ [x] @ ys) s = for_loop stp (xs @ ys) s"
proof -
  have "for_loop stp (x # ys) = for_loop stp ys"
    by (rule ext) (simp add: assms)
  then show ?thesis
    by (simp add: for_loop_append)
qed

text \<open>\<open>str_in\<close> is Python's substring test: \<open>s\<close> lies in \<open>t\<close> between two pieces.\<close>

lemma starts_with_iff: "starts_with s t \<longleftrightarrow> (\<exists>b. t = s @ b)"
  by (induction s t rule: starts_with.induct) auto

lemma str_in_iff: "str_in s t \<longleftrightarrow> (\<exists>a b. t = a @ s @ b)"
proof (induction t)
  case Nil
  show ?case by auto
next
  case (Cons d t)
  show ?case
  proof
    assume "str_in s (d # t)"
    then consider "starts_with s (d # t)" | "str_in s t" by auto
    then show "\<exists>a b. d # t = a @ s @ b"
    proof cases
      case 1
      then obtain b where "d # t = s @ b" by (auto simp: starts_with_iff)
      then have "d # t = [] @ s @ b" by simp
      then show ?thesis by blast
    next
      case 2
      then obtain a b where "t = a @ s @ b" using Cons.IH by blast
      then have "d # t = (d # a) @ s @ b" by simp
      then show ?thesis by blast
    qed
  next
    assume "\<exists>a b. d # t = a @ s @ b"
    then obtain a b where ab: "d # t = a @ s @ b" by blast
    show "str_in s (d # t)"
    proof (cases a)
      case Nil
      with ab have "starts_with s (d # t)" by (auto simp: starts_with_iff)
      then show ?thesis by simp
    next
      case (Cons a0 a')
      with ab have "t = a' @ s @ b" by simp
      then have "str_in s t" using Cons.IH by blast
      then show ?thesis by simp
    qed
  qed
qed

lemma map_of_dict_set:
  "map_of (dict_set d k v) k' = (if k' = k then Some v else map_of d k')"
  by (induction d) auto

lemma dict_set_fresh: "map_of d k = None \<Longrightarrow> dict_set d k v = d @ [(k, v)]"
  by (induction d) (auto split: if_splits)

lemma key_in_dict: "k \<in> fst ` set kvs \<longleftrightarrow> map_of kvs k \<noteq> None"
  by (simp add: map_of_eq_None_iff)

section \<open>Well-formed inputs are translated\<close>

lemma is_str_iff: "is_str v \<longleftrightarrow> (\<exists>s. v = JStr s)"
  by (cases v) simp_all

lemma is_dict_iff: "is_dict v \<longleftrightarrow> (\<exists>kvs. v = JObj kvs)"
  by (cases v) simp_all

lemma list_of_iff: "list_of P v \<longleftrightarrow> (\<exists>xs. v = JArr xs \<and> list_all P xs)"
  by (cases v) simp_all

lemma absent_or_iff:
  "absent_or P d k \<longleftrightarrow> map_of d k = None \<or> (\<exists>v. map_of d k = Some v \<and> P v)"
  by (simp add: absent_or_def split: option.splits)

lemma source_part_iff:
  "source_part v \<longleftrightarrow> (\<exists>p. v = JObj p \<and> absent_or is_str p ''text'' \<and> absent_or is_dict p ''functionCall'')"
  by (cases v) simp_all

lemma part_step_total:
  assumes "source_part part"
  shows "\<exists>t. part_step rp part joined = Inr t"
proof -
  from assms obtain p where p: "part = JObj p" "absent_or is_str p ''text''"
    "absent_or is_dict p ''functionCall''"
    by (auto simp add: source_part_iff)
  from p(2) consider "map_of p ''text'' = None" | s where "map_of p ''text'' = Some (JStr s)"
    by (auto simp add: absent_or_iff is_str_iff)
  then show ?thesis
  proof cases
    case 1
    with p(3) show ?thesis
      by (auto simp add: p(1) part_step_def bind_res_def key_in_dict absent_or_iff is_dict_iff)
  next
    case 2
    with p(3) show ?thesis
      by (auto simp add: p(1) part_step_def bind_res_def key_in_dict absent_or_iff is_dict_iff)
  qed
qed

lemma for_loop_total:
  assumes "\<And>x s. P x \<Longrightarrow> \<exists>t. stp x s = Inr t"
  shows "list_all P xs \<Longrightarrow> \<exists>t. for_loop stp xs s = Inr t"
proof (induction xs arbitrary: s)
  case Nil
  then show ?case by simp
next
  case (Cons x xs)
  then obtain t where "stp x s = Inr t" using assms by fastforce
  moreover from Cons obtain u where "for_loop stp xs t = Inr u" by fastforce
  ultimately show ?case by simp
qed

lemma source_content_iff:
  "source_content v \<longleftrightarrow> (\<exists>c. v = JObj c \<and> absent_or (list_of source_part) c ''parts'')"
  by (cases v) simp_all

lemma content_step_total:
  assumes "source_content content"
  shows "\<exists>t. content_step rp content messages = Inr t"
proof -
  from assms obtain c where c: "content = JObj c" "absent_or (list_of source_part) c ''parts''"
    by (auto simp add: source_content_iff)
  from c(2) obtain ps where ps: "py_get content ''parts'' (JArr []) = Inr (JArr ps)"
    "list_all source_part ps"
    by (auto simp add: c(1) absent_or_iff list_of_iff)
  from for_loop_total [of source_part "part_step rp", OF part_step_total ps(2)]
  obtain joined where "for_loop (part_step rp) ps [] = Inr joined" by blast
  then have "py_for (JArr ps) (part_step rp) [] = Inr joined"
    by (simp add: py_for_def bind_res_def)
  with ps(1) show ?thesis
    by (simp add: content_step_def c(1) bind_res_def Let_def)
qed

lemma func_decl_step_dict:
  "is_dict decl \<Longrightarrow> func_decl_step decl tools = Inr (tools @ [target_tool decl])"
  by (auto simp add: is_dict_iff func_decl_step_def bind_res_def target_tool_def field_or_def)

lemma func_decl_loop:
  "list_all is_dict ds \<Longrightarrow> for_loop func_decl_step ds tools = Inr (tools @ map target_tool ds)"
  by (induction ds arbitrary: tools) (simp_all add: func_decl_step_dict)

lemma source_tool_iff:
  "source_tool v \<longleftrightarrow> (\<exists>t. v = JObj t \<and> absent_or (list_of is_dict) t ''functionDeclarations'')"
  by (cases v) simp_all

lemma tool_step_source:
  assumes "source_tool tool"
  shows "tool_step tool tools = Inr (tools @ map target_tool (declarations tool))"
proof -
  from assms obtain t where t: "tool = JObj t" "absent_or (list_of is_dict) t ''functionDeclarations''"
    by (auto simp add: source_tool_iff)
  from t(2) obtain ds where ds: "py_get tool ''functionDeclarations'' (JArr []) = Inr (JArr ds)"
    "list_all is_dict ds" "declarations tool = ds"
    by (auto simp add: t(1) absent_or_iff list_of_iff declarations_def field_or_def)
  then show ?thesis
    by (simp add: tool_step_def bind_res_def py_for_def func_decl_loop)
qed

lemma tool_loop:
  "list_all source_tool ts \<Longrightarrow> for_loop tool_step ts tools = Inr (tools @ flattened_tools ts)"
  by (induction ts arbitrary: tools) (simp_all add: tool_step_source flattened_tools_def)


lemma py_strip_empty_iff: "py_strip s = [] \<longleftrightarrow> (\<forall>c\<in>set s. is_space c)"
proof -
  have "(\<forall>c\<in>set (dropWhile is_space s). is_space c) \<longleftrightarrow> (\<forall>c\<in>set s. is_space c)"
  proof
    assume rest: "\<forall>c\<in>set (dropWhile is_space s). is_space c"
    have "set s = set (takeWhile is_space s) \<union> set (dropWhile is_space s)"
      by (metis set_append takeWhile_dropWhile_id)
    with rest show "\<forall>c\<in>set s. is_space c"
      by (auto dest: set_takeWhileD)
  next
    assume "\<forall>c\<in>set s. is_space c"
    then show "\<forall>c\<in>set (dropWhile is_space s). is_space c"
      by (auto dest: set_dropWhileD)
  qed
  then show ?thesis
    by (simp add: py_strip_def dropWhile_eq_Nil_conv)
qed

lemma source_request_iff:
  "source_request v \<longleftrightarrow>
     (\<exists>r. v = JObj r \<and> absent_or (list_of source_content) r ''contents''
        \<and> absent_or (list_of source_tool) r ''tools'' \<and> absent_or is_dict r ''generationConfig'')"
  by (cases v) simp_all

lemma gemini_to_openai_try_fields:
  assumes contents: "py_get (JObj request) ''contents'' (JArr []) = Inr (JArr cs)"
    and messages: "for_loop (content_step rp) cs [] = Inr messages"
    and tools: "py_get (JObj request) ''tools'' (JArr []) = Inr (JArr ts)"
    and ts: "list_all source_tool ts"
    and config: "py_get (JObj request) ''generationConfig'' (JObj []) = Inr (JObj g)"
  shows "gemini_to_openai_try rp model (JObj request) =
     Inr (JObj ([(''model'', JStr model), (''messages'', JArr messages), (''stream'', JBool False),
                 (''temperature'', case map_of g ''temperature'' of Some v \<Rightarrow> v
                                   | None \<Rightarrow> JFloat 0x3FB999999999999A),
                 (''max_tokens'', case map_of g ''maxOutputTokens'' of Some v \<Rightarrow> v
                                  | None \<Rightarrow> JInt 4000)]
                @ (if flattened_tools ts = [] then []
                   else [(''tools'', JArr (flattened_tools ts)), (''tool_choice'', JStr ''auto'')])))"
proof -
  have loop: "py_for (JArr cs) (content_step rp) [] = Inr messages"
    using messages by (simp add: py_for_def bind_res_def)
  have tloop: "py_for (JArr ts) tool_step [] = Inr (flattened_tools ts)"
    using tool_loop [OF ts, of "[]"] by (simp add: py_for_def bind_res_def)
  have empty: "ts = [] \<Longrightarrow> flattened_tools ts = []"
    by (simp add: flattened_tools_def)
  show ?thesis
    unfolding gemini_to_openai_try_def contents tools config bind_res_Inr loop tloop Let_def
    using empty by (simp add: bind_res_def)
qed

lemma convert_gemini_to_openai_source:
  assumes "source_request (JObj request)"
  shows "\<exists>messages temperature max_tokens.
     for_loop (content_step rp) (items_or_none request ''contents'') [] = Inr messages \<and>
     convert_gemini_to_openai rp model (JObj request) =
       Inr (JObj ([(''model'', JStr model), (''messages'', JArr messages), (''stream'', JBool False),
                   (''temperature'', temperature), (''max_tokens'', max_tokens)]
                  @ (if flattened_tools (items_or_none request ''tools'') = [] then []
                     else [(''tools'', JArr (flattened_tools (items_or_none request ''tools''))),
                           (''tool_choice'', JStr ''auto'')])))"
proof -
  from assms have c: "absent_or (list_of source_content) request ''contents''"
    and t: "absent_or (list_of source_tool) request ''tools''"
    and g: "absent_or is_dict request ''generationConfig''"
    by simp_all
  from c have c1: "py_get (JObj request) ''contents'' (JArr []) = Inr (JArr (items_or_none request ''contents''))"
    and c2: "list_all source_content (items_or_none request ''contents'')"
    by (auto simp add: absent_or_iff list_of_iff items_or_none_def)
  from t have t1: "py_get (JObj request) ''tools'' (JArr []) = Inr (JArr (items_or_none request ''tools''))"
    and t2: "list_all source_tool (items_or_none request ''tools'')"
    by (auto simp add: absent_or_iff list_of_iff items_or_none_def)
  from g obtain gc where g1: "py_get (JObj request) ''generationConfig'' (JObj []) = Inr (JObj gc)"
    by (auto simp add: absent_or_iff is_dict_iff)
  from for_loop_total [of source_content "content_step rp", OF content_step_total c2]
  obtain messages where m: "for_loop (content_step rp) (items_or_none request ''contents'') [] = Inr messages"
    by blast
  show ?thesis
    using m gemini_to_openai_try_fields [OF c1 m t1 t2 g1, of model]
    by (simp add: convert_gemini_to_openai_def)
qed

section \<open>Entries of the contents and their messages\<close>

lemma content_step_extends:
  assumes "content_step rp content messages = Inr messages'"
  shows "\<exists>new. messages' = messages @ new \<and> (\<forall>ms. content_step rp content ms = Inr (ms @ new))"
proof -
  from assms obtain role where role: "py_get content ''role'' JNull = Inr role"
    by (auto simp add: content_step_def bind_res_eq_Inr)
  show ?thesis
  proof (cases "role = JStr ''user'' \<or> role = JStr ''model''")
    case False
    with assms role have "messages' = messages @ []"
      by (auto simp add: content_step_def bind_res_def)
    moreover from False role have "\<forall>ms. content_step rp content ms = Inr (ms @ [])"
      by (auto simp add: content_step_def bind_res_def)
    ultimately show ?thesis by blast
  next
    case True
    with assms role obtain parts joined where
      parts: "py_get content ''parts'' (JArr []) = Inr parts" and
      joined: "py_for parts (part_step rp) [] = Inr joined"
      by (auto simp add: content_step_def bind_res_eq_Inr Let_def)
    define new where "new = (if py_strip joined \<noteq> []
        then [JObj [(''role'', if role = JStr ''model'' then JStr ''assistant'' else role),
                    (''content'', JStr (py_strip joined))]] else [])"
    have "content_step rp content ms = Inr (ms @ new)" for ms
      using True role parts joined by (auto simp add: content_step_def bind_res_def new_def)
    with assms show ?thesis by auto
  qed
qed

lemma content_loop_extends:
  "for_loop (content_step rp) cs messages = Inr messages' \<Longrightarrow>
     \<exists>new. messages' = messages @ new \<and> (\<forall>ms. for_loop (content_step rp) cs ms = Inr (ms @ new))"
proof (induction cs arbitrary: messages)
  case Nil
  then show ?case by auto
next
  case (Cons c cs)
  then obtain m1 where m1: "content_step rp c messages = Inr m1"
    and rest: "for_loop (content_step rp) cs m1 = Inr messages'"
    by (auto split: sum.splits)
  from content_step_extends [OF m1] obtain n1 where
    n1: "m1 = messages @ n1" "\<And>ms. content_step rp c ms = Inr (ms @ n1)" by blast
  from Cons.IH [OF rest] obtain n2 where
    n2: "messages' = m1 @ n2" "\<And>ms. for_loop (content_step rp) cs ms = Inr (ms @ n2)" by blast
  have "messages' = messages @ (n1 @ n2)" using n1 n2 by simp
  moreover have "\<forall>ms. for_loop (content_step rp) (c # cs) ms = Inr (ms @ (n1 @ n2))"
    using n1 n2 by simp
  ultimately show ?case by blast
qed

text \<open>The messages of a loop over a list with one entry singled out.\<close>

lemma content_loop_split:
  assumes loop: "for_loop (content_step rp) (before @ [c] @ after) [] = Inr messages"
    and step: "\<And>ms. content_step rp c ms = Inr (ms @ new)"
  shows "\<exists>ms1 ms2. messages = ms1 @ new @ ms2 \<and> for_loop (content_step rp) before [] = Inr ms1"
proof -
  from loop obtain ms1 where ms1: "for_loop (content_step rp) before [] = Inr ms1"
    and rest: "for_loop (content_step rp) ([c] @ after) ms1 = Inr messages"
    by (auto simp add: for_loop_append bind_res_eq_Inr)
  from rest step have "for_loop (content_step rp) after (ms1 @ new) = Inr messages"
    by simp
  from content_loop_extends [OF this] obtain ms2 where "messages = (ms1 @ new) @ ms2"
    by blast
  with ms1 show ?thesis by auto
qed

lemma part_step_call_only:
  assumes "map_of part ''text'' = None"
    and "map_of part ''functionCall'' = Some (JObj call)"
  shows "part_step rp (JObj part) joined =
           Inr (joined @ [CHR 0x0A] @ ''[Function Call: ''
                  @ py_format rp (case map_of call ''name'' of Some n \<Rightarrow> n | None \<Rightarrow> JStr ''unknown'')
                  @ '']'')"
  using assms by (simp add: part_step_def bind_res_def key_in_dict)

lemma content_step_supported:
  assumes "map_of content ''role'' = Some (JStr role)"
    and "role = ''user'' \<or> role = ''model''"
    and "py_for (case map_of content ''parts'' of Some v \<Rightarrow> v | None \<Rightarrow> JArr [])
           (part_step rp) [] = Inr joined"
  shows "content_step rp (JObj content) messages =
           Inr (if py_strip joined \<noteq> []
                then messages @ [JObj [(''role'', JStr (if role = ''model'' then ''assistant'' else ''user'')),
                                       (''content'', JStr (py_strip joined))]]
                else messages)"
  using assms by (auto simp add: content_step_def bind_res_def)

lemma content_step_unsupported:
  assumes "map_of content ''role'' \<noteq> Some (JStr ''user'')"
    and "map_of content ''role'' \<noteq> Some (JStr ''model'')"
  shows "content_step rp (JObj content) messages = Inr messages"
  using assms by (auto simp add: content_step_def bind_res_def split: option.splits)

section \<open>The claims of the specification\<close>

text \<open>
  Claim C1. A contents entry with a supported role whose only part is a function call
  named \<^verbatim>\<open>lookup\<close>, with no text, is kept: the translation of a well-formed request
  succeeds and its messages hold, at the entry's place, the message with the mapped role
  and the content \<^verbatim>\<open>[Function Call: lookup]\<close>, the marker without its leading newline.
\<close>

theorem function_call_only_entry_kept:
  assumes role: "role = ''user'' \<or> role = ''model''"
    and content: "map_of content ''role'' = Some (JStr role)"
      "map_of content ''parts'' = Some (JArr [JObj part])"
    and part: "map_of part ''text'' = None" "map_of part ''functionCall'' = Some (JObj call)"
    and name: "map_of call ''name'' = Some (JStr ''lookup'')"
    and request: "map_of request ''contents'' = Some (JArr (before @ [JObj content] @ after))"
      "source_request (JObj request)"
  shows "\<exists>fields ms1 ms2.
     convert_gemini_to_openai rp model (JObj request) = Inr (JObj fields) \<and>
     map_of fields ''messages'' =
       Some (JArr (ms1 @ [JObj [(''role'', JStr (if role = ''model'' then ''assistant'' else ''user'')),
                                (''content'', JStr ''[Function Call: lookup]'')]] @ ms2)) \<and>
     for_loop (content_step rp) before [] = Inr ms1"
proof -
  let ?m = "JObj [(''role'', JStr (if role = ''model'' then ''assistant'' else ''user'')),
                  (''content'', JStr ''[Function Call: lookup]'')]"
  have joined: "py_for (case map_of content ''parts'' of Some v \<Rightarrow> v | None \<Rightarrow> JArr [])
      (part_step rp) [] = Inr (CHR 0x0A # ''[Function Call: lookup]'')"
    using part_step_call_only [OF part, of rp "[]"] name content(2)
    by (simp add: py_for_def bind_res_def)
  have strip: "py_strip (CHR 0x0A # ''[Function Call: lookup]'') = ''[Function Call: lookup]''"
    by (simp add: py_strip_def is_space_def)
  have step: "content_step rp (JObj content) ms = Inr (ms @ [?m])" for ms
    using content_step_supported [OF content(1) role joined, of ms] by (simp add: strip)
  from convert_gemini_to_openai_source [OF request(2), of rp model] obtain messages fields where
    loop: "for_loop (content_step rp) (items_or_none request ''contents'') [] = Inr messages"
    and out: "convert_gemini_to_openai rp model (JObj request) = Inr (JObj fields)"
    and fields: "map_of fields ''messages'' = Some (JArr messages)"
    by auto
  from loop request(1) have "for_loop (content_step rp) (before @ [JObj content] @ after) [] = Inr messages"
    by (simp add: items_or_none_def)
  from content_loop_split [OF this step] obtain ms1 ms2 where
    "messages = ms1 @ [?m] @ ms2" "for_loop (content_step rp) before [] = Inr ms1"
    by blast
  with out fields show ?thesis by blast
qed


theorem function_call_only_entry_kept_witness:
  "\<exists>fields ms2.
     convert_gemini_to_openai str_example ''gpt-4o''
       (JObj [(''contents'',
               JArr [JObj [(''role'', JStr ''user''),
                           (''parts'', JArr [JObj [(''functionCall'',
                                                    JObj [(''name'', JStr ''lookup'')])]])]])])
       = Inr (JObj fields) \<and>
     map_of fields ''messages'' =
       Some (JArr (JObj [(''role'', JStr ''user''),
                         (''content'', JStr ''[Function Call: lookup]'')] # ms2))"
proof -
  let ?call = "[(''name'', JStr ''lookup'')]"
  let ?part = "[(''functionCall'', JObj ?call)]"
  let ?content = "[(''role'', JStr ''user''), (''parts'', JArr [JObj ?part])]"
  let ?request = "[(''contents'', JArr [JObj ?content])]"
  have wf: "source_request (JObj ?request)"
    by (simp add: absent_or_def)
  have contents: "map_of ?request ''contents'' = Some (JArr ([] @ [JObj ?content] @ []))"
    by simp
  from function_call_only_entry_kept [of "''user''" ?content ?part ?call ?request "[]" "[]"
      str_example "''gpt-4o''", OF _ _ _ _ _ _ contents wf]
  show ?thesis by auto
qed

text \<open>
  Claim C7. A contents entry whose accumulated part text is empty or consists of white
  space only is omitted: its step leaves the messages as they are, the loop gives the same
  result as without the entry, and so does the whole translation. The example is the
  request whose only entry has the text of two spaces; its messages are empty.
\<close>

theorem blank_entry_omitted:
  assumes joined: "py_for (case map_of content ''parts'' of Some v \<Rightarrow> v | None \<Rightarrow> JArr [])
                     (part_step rp) [] = Inr joined"
    and blank: "\<forall>c\<in>set joined. is_space c"
  shows "content_step rp (JObj content) messages = Inr messages
    \<and> for_loop (content_step rp) (before @ [JObj content] @ after) messages
        = for_loop (content_step rp) (before @ after) messages
    \<and> (map_of request ''contents'' = Some (JArr (before @ [JObj content] @ after)) \<longrightarrow>
         convert_gemini_to_openai rp model (JObj request)
         = convert_gemini_to_openai rp model
             (JObj (dict_set request ''contents'' (JArr (before @ after)))))"
proof -
  from blank have strip: "py_strip joined = []"
    by (simp add: py_strip_empty_iff)
  have step: "content_step rp (JObj content) ms = Inr ms" for ms
    using joined strip by (auto simp add: content_step_def bind_res_def)
  have skip: "for_loop (content_step rp) (before @ [JObj content] @ after) ms
      = for_loop (content_step rp) (before @ after) ms" for ms
    using step by (rule for_loop_skip)
  have "convert_gemini_to_openai rp model (JObj request)
      = convert_gemini_to_openai rp model (JObj (dict_set request ''contents'' (JArr (before @ after))))"
    if "map_of request ''contents'' = Some (JArr (before @ [JObj content] @ after))"
    using that skip [of "[]"]
    by (simp add: convert_gemini_to_openai_def gemini_to_openai_try_def map_of_dict_set
        py_for_def bind_res_Inr)
  with step skip show ?thesis by blast
qed

theorem blank_entry_omitted_witness:
  "convert_gemini_to_openai str_example ''gpt-4o''
     (JObj [(''contents'', JArr [JObj [(''role'', JStr ''user''),
                                       (''parts'', JArr [JObj [(''text'', JStr ''  '')]])]])])
   = Inr (JObj [(''model'', JStr ''gpt-4o''), (''messages'', JArr []), (''stream'', JBool False),
                (''temperature'', JFloat 0x3FB999999999999A), (''max_tokens'', JInt 4000)])"
proof -
  let ?content = "[(''role'', JStr ''user''), (''parts'', JArr [JObj [(''text'', JStr ''  '')]])]"
  let ?request = "[(''contents'', JArr [JObj ?content])]"
  have joined: "py_for (case map_of ?content ''parts'' of Some v \<Rightarrow> v | None \<Rightarrow> JArr [])
      (part_step str_example) [] = Inr ''  ''"
    by (simp add: py_for_def part_step_def bind_res_def)
  have blank: "\<forall>c\<in>set ''  ''. is_space c"
    by (simp add: is_space_def)
  have contents: "map_of ?request ''contents'' = Some (JArr ([] @ [JObj ?content] @ []))"
    by simp
  have "convert_gemini_to_openai str_example ''gpt-4o'' (JObj ?request)
      = convert_gemini_to_openai str_example ''gpt-4o''
          (JObj (dict_set ?request ''contents'' (JArr ([] @ []))))"
    using blank_entry_omitted [OF joined blank, of "[]" "[]" "[]" ?request "''gpt-4o''"] contents
    by blast
  also have "\<dots> = Inr (JObj [(''model'', JStr ''gpt-4o''), (''messages'', JArr []),
      (''stream'', JBool False), (''temperature'', JFloat 0x3FB999999999999A),
      (''max_tokens'', JInt 4000)])"
    by (simp add: convert_gemini_to_openai_def gemini_to_openai_try_def py_for_def bind_res_def)
  finally show ?thesis .
qed

lemma gemini_request_messages:
  assumes "convert_gemini_to_openai rp model (JObj request) = Inr out"
  shows "\<exists>fields messages. out = JObj fields
           \<and> map_of fields ''messages'' = Some (JArr messages)
           \<and> py_for (case map_of request ''contents'' of Some v \<Rightarrow> v | None \<Rightarrow> JArr [])
                 (content_step rp) [] = Inr messages"
  using assms
  by (auto simp add: convert_gemini_to_openai_def gemini_to_openai_try_def bind_res_eq_Inr
      Let_def map_of_dict_set split: sum.splits if_splits)

lemma entry_messages_in_output:
  assumes step: "\<And>ms. content_step rp c ms = Inr (ms @ new)"
    and contents: "map_of request ''contents'' = Some (JArr (before @ [c] @ after))"
    and out: "convert_gemini_to_openai rp model (JObj request) = Inr out"
  shows "\<exists>fields ms1 ms2. out = JObj fields
           \<and> map_of fields ''messages'' = Some (JArr (ms1 @ new @ ms2))
           \<and> for_loop (content_step rp) before [] = Inr ms1"
proof -
  from gemini_request_messages [OF out] contents obtain fields messages where
    fields: "out = JObj fields" "map_of fields ''messages'' = Some (JArr messages)"
    and loop: "for_loop (content_step rp) (before @ [c] @ after) [] = Inr messages"
    by (auto simp add: py_for_def bind_res_def)
  from content_loop_split [OF loop step] fields show ?thesis by blast
qed

lemma entry_removed:
  assumes step: "\<And>ms. content_step rp c ms = Inr ms"
    and contents: "map_of request ''contents'' = Some (JArr (before @ [c] @ after))"
  shows "convert_gemini_to_openai rp model (JObj request)
         = convert_gemini_to_openai rp model
             (JObj (dict_set request ''contents'' (JArr (before @ after))))"
proof -
  have "for_loop (content_step rp) (before @ [c] @ after) []
      = for_loop (content_step rp) (before @ after) []"
    using step by (rule for_loop_skip)
  with contents show ?thesis
    by (simp add: convert_gemini_to_openai_def gemini_to_openai_try_def map_of_dict_set
        py_for_def bind_res_Inr)
qed

text \<open>
  Claim C5 as it is worded says that every entry with role \<^verbatim>\<open>model\<close> yields a message.
  The request whose only entry has role \<^verbatim>\<open>model\<close> and the text of one space is translated
  to no message at all: the guard on the trimmed content drops the entry.
\<close>

theorem role_mapping_counterexample:
  "convert_gemini_to_openai str_example ''gpt-4o''
     (JObj [(''contents'', JArr [JObj [(''role'', JStr ''model''),
                                       (''parts'', JArr [JObj [(''text'', JStr '' '')]])]])])
   = Inr (JObj [(''model'', JStr ''gpt-4o''), (''messages'', JArr []), (''stream'', JBool False),
                (''temperature'', JFloat 0x3FB999999999999A), (''max_tokens'', JInt 4000)])"
  by (simp add: convert_gemini_to_openai_def gemini_to_openai_try_def py_for_def bind_res_def
      content_step_def part_step_def py_strip_def is_space_def)

text \<open>
  Claim C5, as the code has it. A kept entry (one whose accumulated text is not empty after
  trimming) with role \<^verbatim>\<open>model\<close> yields a message with role \<^verbatim>\<open>assistant\<close>, one with role
  \<^verbatim>\<open>user\<close> a message with role \<^verbatim>\<open>user\<close>, at the entry's place in the messages of a
  well-formed request. An entry with any other role, or with none, adds no message and
  raises no error, whatever its parts are: the translation is that of the request without
  the entry.
\<close>

theorem role_mapping:
  "(source_request (JObj request)
      \<and> map_of request ''contents'' = Some (JArr (before @ [JObj content] @ after))
      \<and> map_of content ''role'' = Some (JStr role) \<and> (role = ''user'' \<or> role = ''model'')
      \<and> py_for (case map_of content ''parts'' of Some v \<Rightarrow> v | None \<Rightarrow> JArr [])
            (part_step rp) [] = Inr joined
      \<and> py_strip joined \<noteq> []
    \<longrightarrow> (\<exists>fields ms1 ms2.
           convert_gemini_to_openai rp model (JObj request) = Inr (JObj fields) \<and>
           map_of fields ''messages'' =
             Some (JArr (ms1 @ [JObj [(''role'', JStr (if role = ''model'' then ''assistant'' else ''user'')),
                                      (''content'', JStr (py_strip joined))]] @ ms2)) \<and>
           for_loop (content_step rp) before [] = Inr ms1))
   \<and> (map_of content ''role'' \<noteq> Some (JStr ''user'')
      \<and> map_of content ''role'' \<noteq> Some (JStr ''model'')
    \<longrightarrow> content_step rp (JObj content) messages = Inr messages
        \<and> (map_of request ''contents'' = Some (JArr (before @ [JObj content] @ after)) \<longrightarrow>
             convert_gemini_to_openai rp model (JObj request)
             = convert_gemini_to_openai rp model
                 (JObj (dict_set request ''contents'' (JArr (before @ after))))))"
proof (intro conjI impI)
  assume h: "source_request (JObj request)
      \<and> map_of request ''contents'' = Some (JArr (before @ [JObj content] @ after))
      \<and> map_of content ''role'' = Some (JStr role) \<and> (role = ''user'' \<or> role = ''model'')
      \<and> py_for (case map_of content ''parts'' of Some v \<Rightarrow> v | None \<Rightarrow> JArr [])
            (part_step rp) [] = Inr joined
      \<and> py_strip joined \<noteq> []"
  let ?m = "JObj [(''role'', JStr (if role = ''model'' then ''assistant'' else ''user'')),
                  (''content'', JStr (py_strip joined))]"
  from h have step: "content_step rp (JObj content) ms = Inr (ms @ [?m])" for ms
    using content_step_supported [of content role rp joined ms] by simp
  from h convert_gemini_to_openai_source [of request rp model] obtain out where
    out: "convert_gemini_to_openai rp model (JObj request) = Inr out"
    by blast
  from h have contents: "map_of request ''contents'' = Some (JArr (before @ [JObj content] @ after))"
    by simp
  from entry_messages_in_output [OF step contents out] out
  show "\<exists>fields ms1 ms2.
           convert_gemini_to_openai rp model (JObj request) = Inr (JObj fields) \<and>
           map_of fields ''messages'' = Some (JArr (ms1 @ [?m] @ ms2)) \<and>
           for_loop (content_step rp) before [] = Inr ms1"
    by auto
next
  assume "map_of content ''role'' \<noteq> Some (JStr ''user'')
      \<and> map_of content ''role'' \<noteq> Some (JStr ''model'')"
  then show "content_step rp (JObj content) messages = Inr messages"
    by (simp add: content_step_unsupported)
next
  assume other: "map_of content ''role'' \<noteq> Some (JStr ''user'')
      \<and> map_of content ''role'' \<noteq> Some (JStr ''model'')"
    and contents: "map_of request ''contents'' = Some (JArr (before @ [JObj content] @ after))"
  from other have "content_step rp (JObj content) ms = Inr ms" for ms
    by (simp add: content_step_unsupported)
  from entry_removed [OF this contents]
  show "convert_gemini_to_openai rp model (JObj request)
             = convert_gemini_to_openai rp model
                 (JObj (dict_set request ''contents'' (JArr (before @ after))))" .
qed

theorem role_mapping_witness:
  "(\<exists>fields ms2.
      convert_gemini_to_openai str_example ''gpt-4o''
        (JObj [(''contents'', JArr [JObj [(''role'', JStr ''model''),
                                          (''parts'', JArr [JObj [(''text'', JStr ''Hello'')]])],
                                    JObj [(''role'', JStr ''system''),
                                          (''parts'', JInt 7)]])])
        = Inr (JObj fields) \<and>
      map_of fields ''messages'' =
        Some (JArr (JObj [(''role'', JStr ''assistant''), (''content'', JStr ''Hello'')] # ms2)))
   \<and> content_step str_example (JObj [(''role'', JStr ''system''), (''parts'', JInt 7)]) [] = Inr []"
proof -
  let ?model = "[(''role'', JStr ''model''), (''parts'', JArr [JObj [(''text'', JStr ''Hello'')]])]"
  let ?system = "[(''role'', JStr ''system''), (''parts'', JInt 7)]"
  let ?kept = "[(''contents'', JArr [JObj ?model])]"
  let ?request = "[(''contents'', JArr [JObj ?model, JObj ?system])]"
  have wf: "source_request (JObj ?kept)"
    by (simp add: absent_or_def)
  have contents: "map_of ?kept ''contents'' = Some (JArr ([] @ [JObj ?model] @ []))"
    by simp
  have joined: "py_for (case map_of ?model ''parts'' of Some v \<Rightarrow> v | None \<Rightarrow> JArr [])
      (part_step str_example) [] = Inr ''Hello''"
    by (simp add: py_for_def part_step_def bind_res_def)
  have strip: "py_strip ''Hello'' = ''Hello''"
    by (simp add: py_strip_def is_space_def)
  have other: "map_of ?system ''role'' \<noteq> Some (JStr ''user'')
      \<and> map_of ?system ''role'' \<noteq> Some (JStr ''model'')"
    by simp
  have contents2: "map_of ?request ''contents'' = Some (JArr ([JObj ?model] @ [JObj ?system] @ []))"
    by simp
  have removed: "convert_gemini_to_openai str_example ''gpt-4o'' (JObj ?request)
      = convert_gemini_to_openai str_example ''gpt-4o'' (JObj ?kept)"
    using role_mapping [where content = ?system and request = ?request
        and before = "[JObj ?model]" and after = "[]" and rp = str_example and model = "''gpt-4o''"]
      other contents2
    by simp
  have kept: "\<exists>fields ms2.
      convert_gemini_to_openai str_example ''gpt-4o'' (JObj ?kept) = Inr (JObj fields) \<and>
      map_of fields ''messages'' =
        Some (JArr (JObj [(''role'', JStr ''assistant''), (''content'', JStr ''Hello'')] # ms2))"
    using role_mapping [where content = ?model and request = ?kept and before = "[]"
        and after = "[]" and rp = str_example and model = "''gpt-4o''" and role = "''model''"
        and joined = "''Hello''"]
      wf contents joined strip
    by auto
  have skip: "content_step str_example (JObj ?system) [] = Inr []"
    using role_mapping [where content = ?system and rp = str_example and messages = "[]"] other
    by blast
  from removed kept skip show ?thesis by simp
qed

text \<open>
  Claim C8. For a well-formed request with a \<^verbatim>\<open>tools\<close> list, the translation succeeds and
  its result is the five fixed fields followed, when the flattened list of all
  \<^verbatim>\<open>functionDeclarations\<close> of all tools (in order, each as a \<^verbatim>\<open>function\<close> entry) is not
  empty, by \<^verbatim>\<open>tools\<close> with that list and \<^verbatim>\<open>tool_choice\<close> with \<^verbatim>\<open>"auto"\<close>; when the
  flattened list is empty, neither field is there. In the example two tools with one
  declaration each give two entries.
\<close>

theorem tools_flattened:
  assumes wf: "source_request (JObj request)"
    and tools: "map_of request ''tools'' = Some (JArr tools)"
  shows "\<exists>messages temperature max_tokens fields.
     convert_gemini_to_openai rp model (JObj request) = Inr (JObj fields) \<and>
     (flattened_tools tools \<noteq> [] \<longrightarrow>
        fields = [(''model'', JStr model), (''messages'', JArr messages), (''stream'', JBool False),
                  (''temperature'', temperature), (''max_tokens'', max_tokens),
                  (''tools'', JArr (flattened_tools tools)), (''tool_choice'', JStr ''auto'')]) \<and>
     (flattened_tools tools = [] \<longrightarrow>
        fields = [(''model'', JStr model), (''messages'', JArr messages), (''stream'', JBool False),
                  (''temperature'', temperature), (''max_tokens'', max_tokens)] \<and>
        map_of fields ''tools'' = None \<and> map_of fields ''tool_choice'' = None)"
proof -
  from tools have items: "items_or_none request ''tools'' = tools"
    by (simp add: items_or_none_def)
  from convert_gemini_to_openai_source [OF wf, of rp model] obtain messages temperature max_tokens
    where "convert_gemini_to_openai rp model (JObj request) =
       Inr (JObj ([(''model'', JStr model), (''messages'', JArr messages), (''stream'', JBool False),
                   (''temperature'', temperature), (''max_tokens'', max_tokens)]
                  @ (if flattened_tools tools = [] then []
                     else [(''tools'', JArr (flattened_tools tools)),
                           (''tool_choice'', JStr ''auto'')])))"
    unfolding items by blast
  then show ?thesis
    by (cases "flattened_tools tools = []") auto
qed

theorem tools_flattened_witness:
  "\<exists>messages temperature max_tokens.
     convert_gemini_to_openai str_example ''gpt-4o''
       (JObj [(''contents'', JArr []),
              (''tools'', JArr [JObj [(''functionDeclarations'',
                                        JArr [JObj [(''name'', JStr ''lookup''),
                                                    (''description'', JStr ''Look it up'')]])],
                                JObj [(''functionDeclarations'',
                                        JArr [JObj [(''parameters'', JObj [(''type'', JStr ''object'')])]])]])])
     = Inr (JObj [(''model'', JStr ''gpt-4o''), (''messages'', JArr messages), (''stream'', JBool False),
                  (''temperature'', temperature), (''max_tokens'', max_tokens),
                  (''tools'',
                    JArr [JObj [(''type'', JStr ''function''),
                                (''function'', JObj [(''name'', JStr ''lookup''),
                                                     (''description'', JStr ''Look it up''),
                                                     (''parameters'', JObj [])])],
                          JObj [(''type'', JStr ''function''),
                                (''function'', JObj [(''name'', JStr ''unknown''),
                                                     (''description'', JStr []),
                                                     (''parameters'', JObj [(''type'', JStr ''object'')])])]]),
                  (''tool_choice'', JStr ''auto'')])"
proof -
  let ?t1 = "JObj [(''functionDeclarations'',
                     JArr [JObj [(''name'', JStr ''lookup''), (''description'', JStr ''Look it up'')]])]"
  let ?t2 = "JObj [(''functionDeclarations'',
                     JArr [JObj [(''parameters'', JObj [(''type'', JStr ''object'')])]])]"
  let ?request = "[(''contents'', JArr []), (''tools'', JArr [?t1, ?t2])]"
  have wf: "source_request (JObj ?request)"
    by (simp add: absent_or_def)
  have tools: "map_of ?request ''tools'' = Some (JArr [?t1, ?t2])"
    by simp
  have flat: "flattened_tools [?t1, ?t2] =
      [JObj [(''type'', JStr ''function''),
             (''function'', JObj [(''name'', JStr ''lookup''),
                                  (''description'', JStr ''Look it up''),
                                  (''parameters'', JObj [])])],
       JObj [(''type'', JStr ''function''),
             (''function'', JObj [(''name'', JStr ''unknown''),
                                  (''description'', JStr []),
                                  (''parameters'', JObj [(''type'', JStr ''object'')])])]]"
    by (simp add: flattened_tools_def declarations_def target_tool_def field_or_def)
  from tools_flattened [OF wf tools, of str_example "''gpt-4o''"] show ?thesis
    unfolding flat by auto
qed

section \<open>The parts and the candidate of a response\<close>

lemma for_loop_appends:
  assumes stp: "\<And>x s s'. stp x s = Inr s' \<Longrightarrow> \<exists>new. \<forall>t. stp x t = Inr (t @ new)"
  shows "for_loop stp xs s = Inr s' \<Longrightarrow> \<exists>new. \<forall>t. for_loop stp xs t = Inr (t @ new)"
proof (induction xs arbitrary: s s')
  case Nil
  have "\<forall>t. for_loop stp [] t = Inr (t @ [])" by simp
  then show ?case by blast
next
  case (Cons x xs)
  then obtain s1 where s1: "stp x s = Inr s1" and rest: "for_loop stp xs s1 = Inr s'"
    by (auto split: sum.splits)
  from stp [OF s1] obtain n1 where n1: "\<And>t. stp x t = Inr (t @ n1)" by blast
  from Cons.IH [OF rest] obtain n2 where n2: "\<And>t. for_loop stp xs t = Inr (t @ n2)" by blast
  have "\<forall>t. for_loop stp (x # xs) t = Inr (t @ (n1 @ n2))"
    using n1 n2 by simp
  then show ?case by blast
qed

lemma tool_call_step_appends:
  assumes "tool_call_step loads tool_call parts = Inr parts'"
  shows "\<exists>new. \<forall>ps. tool_call_step loads tool_call ps = Inr (ps @ new)"
proof -
  from assms obtain callee name where
    f: "py_get tool_call ''function'' (JObj []) = Inr callee"
    and n: "py_get callee ''name'' (JStr ''unknown'') = Inr name"
    by (auto simp add: tool_call_step_def bind_res_eq_Inr Let_def)
  then have "\<forall>ps. tool_call_step loads tool_call ps =
      Inr (ps @ [JObj [(''functionCall'',
                        JObj [(''name'', name),
                              (''args'', case py_get callee ''arguments'' (JStr ''{}'') of
                                           Inl e \<Rightarrow> JObj []
                                         | Inr arguments \<Rightarrow>
                                             (case json_loads loads arguments of
                                                None \<Rightarrow> JObj [] | Some v \<Rightarrow> v))])]])"
    by (simp add: tool_call_step_def bind_res_def)
  then show ?thesis by blast
qed

lemma tool_call_loop_split:
  assumes loop: "for_loop (tool_call_step loads) (before @ [tc] @ after) parts = Inr parts'"
    and step: "\<And>ps. tool_call_step loads tc ps = Inr (ps @ new)"
  shows "\<exists>ps1 ps2. parts' = ps1 @ new @ ps2 \<and> for_loop (tool_call_step loads) before parts = Inr ps1"
proof -
  from loop obtain ps1 where ps1: "for_loop (tool_call_step loads) before parts = Inr ps1"
    and rest: "for_loop (tool_call_step loads) ([tc] @ after) ps1 = Inr parts'"
    by (auto simp add: for_loop_append bind_res_eq_Inr)
  from rest step have after: "for_loop (tool_call_step loads) after (ps1 @ new) = Inr parts'"
    by simp
  have "\<exists>ps2. \<forall>t. for_loop (tool_call_step loads) after t = Inr (t @ ps2)"
  proof (rule for_loop_appends)
    show "\<exists>n. \<forall>t. tool_call_step loads x t = Inr (t @ n)"
      if "tool_call_step loads x s = Inr s'" for x s s'
      using that by (rule tool_call_step_appends)
    show "for_loop (tool_call_step loads) after (ps1 @ new) = Inr parts'"
      by (rule after)
  qed
  then obtain ps2 where "\<And>t. for_loop (tool_call_step loads) after t = Inr (t @ ps2)"
    by blast
  with after have "parts' = (ps1 @ new) @ ps2" by simp
  with ps1 show ?thesis by auto
qed

lemma target_tool_call_iff:
  "target_tool_call v \<longleftrightarrow> (\<exists>tc. v = JObj tc \<and> absent_or is_dict tc ''function'')"
  by (cases v) simp_all

lemma tool_call_step_total:
  assumes "target_tool_call tool_call"
  shows "\<exists>t. tool_call_step loads tool_call parts = Inr t"
  using assms
  by (auto simp add: target_tool_call_iff absent_or_iff is_dict_iff tool_call_step_def bind_res_def)

lemma target_message_iff:
  "target_message v \<longleftrightarrow>
     (\<exists>m. v = JObj m \<and> absent_or (\<lambda>v. v = JNull \<or> list_of target_tool_call v) m ''tool_calls'')"
  by (cases v) simp_all

lemma target_choice_iff:
  "target_choice v \<longleftrightarrow> (\<exists>c. v = JObj c \<and> absent_or target_message c ''message'')"
  by (cases v) simp_all

lemma message_parts_total:
  assumes "target_message message"
  shows "\<exists>parts. message_parts loads message = Inr parts"
proof -
  from assms obtain m where m: "message = JObj m"
    and tcs: "absent_or (\<lambda>v. v = JNull \<or> list_of target_tool_call v) m ''tool_calls''"
    by (auto simp add: target_message_iff)
  have "\<exists>parts1. (if py_truthy (case map_of m ''content'' of Some v \<Rightarrow> v | None \<Rightarrow> JNull)
      then bind_res (py_getitem message ''content'') (\<lambda>c. Inr [JObj [(''text'', c)]])
      else Inr []) = Inr parts1"
    by (cases "map_of m ''content''") (auto simp add: m bind_res_def)
  then obtain parts1 where p1: "(if py_truthy (case map_of m ''content'' of Some v \<Rightarrow> v | None \<Rightarrow> JNull)
      then bind_res (py_getitem (JObj m) ''content'') (\<lambda>c. Inr [JObj [(''text'', c)]])
      else Inr []) = Inr parts1"
    unfolding m by blast
  from tcs consider "map_of m ''tool_calls'' = None" | "map_of m ''tool_calls'' = Some JNull"
    | xs where "map_of m ''tool_calls'' = Some (JArr xs)" "list_all target_tool_call xs"
    by (auto simp add: absent_or_iff list_of_iff)
  then have "\<exists>parts. (if py_truthy (case map_of m ''tool_calls'' of Some v \<Rightarrow> v | None \<Rightarrow> JNull)
      then bind_res (py_getitem (JObj m) ''tool_calls'') (\<lambda>tcs.
             py_for tcs (tool_call_step loads) parts1)
      else Inr parts1) = Inr parts"
  proof cases
    case 1
    then show ?thesis by simp
  next
    case 2
    then show ?thesis by simp
  next
    case 3
    from for_loop_total [of target_tool_call "tool_call_step loads", OF tool_call_step_total 3(2)]
    obtain t where "for_loop (tool_call_step loads) xs parts1 = Inr t" by blast
    with 3(1) show ?thesis
      by (cases "xs = []") (simp_all add: py_for_def bind_res_def)
  qed
  then show ?thesis
    unfolding message_parts_def m py_get.simps bind_res_Inr p1 .
qed

lemma openai_to_gemini_shape:
  assumes "convert_openai_to_gemini loads (JObj response) = Inr out"
  shows "\<exists>choices choice finish_reason parts usage.
     choices = (case map_of response ''choices'' of Some v \<Rightarrow> v | None \<Rightarrow> JArr []) \<and>
     py_first choices = Inr choice \<and>
     py_get choice ''finish_reason'' (JStr ''stop'') = Inr finish_reason \<and>
     out = JObj [(''candidates'',
                   JArr [JObj [(''content'', JObj [(''parts'', JArr parts),
                                                   (''role'', JStr ''model'')]),
                               (''finishReason'',
                                 JStr (if finish_reason = JStr ''stop'' then ''STOP'' else ''OTHER'')),
                               (''index'', JInt 0),
                               (''safetyRatings'', JArr [])]]),
                 (''usageMetadata'', usage)]"
proof -
  from assms have "openai_to_gemini_try loads (JObj response) = Inr out"
    by (simp add: convert_openai_to_gemini_def split: sum.splits)
  then show ?thesis
    unfolding openai_to_gemini_try_def Let_def
    by (auto simp add: bind_res_eq_Inr split: if_splits)
qed

lemma target_response_iff:
  "target_response v \<longleftrightarrow>
     (\<exists>r. v = JObj r \<and> absent_or (list_of target_choice) r ''choices'' \<and> absent_or is_dict r ''usage'')"
  by (cases v) simp_all

lemma usage_metadata_total:
  assumes "absent_or is_dict response ''usage''"
  shows "\<exists>u. usage_metadata (JObj response) = Inr u"
  using assms by (auto simp add: usage_metadata_def absent_or_iff is_dict_iff bind_res_def)

lemma convert_openai_to_gemini_target:
  assumes wf: "target_response (JObj response)"
    and choices: "map_of response ''choices'' = Some (JArr (choice # others))"
  shows "\<exists>out. convert_openai_to_gemini loads (JObj response) = Inr out"
proof -
  from wf choices have "target_choice choice" and usage: "absent_or is_dict response ''usage''"
    by (auto simp add: absent_or_iff list_of_iff)
  then obtain c where c: "choice = JObj c" "absent_or target_message c ''message''"
    by (auto simp add: target_choice_iff)
  from c(2) obtain message where message: "py_get choice ''message'' (JObj []) = Inr message"
    "target_message message"
    by (auto simp add: c(1) absent_or_iff absent_or_def)
  from message_parts_total [OF message(2), of loads] obtain parts where
    parts: "message_parts loads message = Inr parts"
    by blast
  from usage_metadata_total [OF usage] obtain u where u: "usage_metadata (JObj response) = Inr u"
    by blast
  have first: "py_get (JObj response) ''choices'' (JArr []) = Inr (JArr (choice # others))"
    using choices by simp
  have fr: "py_get choice ''finish_reason'' (JStr ''stop'') =
      Inr (case map_of c ''finish_reason'' of Some v \<Rightarrow> v | None \<Rightarrow> JStr ''stop'')"
    by (simp add: c(1))
  have "\<exists>out. openai_to_gemini_try loads (JObj response) = Inr out"
    unfolding openai_to_gemini_try_def first bind_res_Inr Let_def
    by (simp add: message(1) parts fr u bind_res_Inr)
  then show ?thesis
    by (auto simp add: convert_openai_to_gemini_def)
qed

text \<open>
  Claim C6. When the first choice of the response carries a \<^verbatim>\<open>finish_reason\<close>, every
  result of the translation has one candidate whose \<^verbatim>\<open>finishReason\<close> is \<^verbatim>\<open>STOP\<close> if the
  value is the str \<^verbatim>\<open>stop\<close> and \<^verbatim>\<open>OTHER\<close> for any other value; a well-formed response
  is translated, so there is such a result.
\<close>

theorem finish_reason_mapping:
  assumes choices: "map_of response ''choices'' = Some (JArr (JObj choice # others))"
    and reason: "map_of choice ''finish_reason'' = Some finish_reason"
  shows "(target_response (JObj response) \<longrightarrow>
            (\<exists>out. convert_openai_to_gemini loads (JObj response) = Inr out))
    \<and> (\<forall>out. convert_openai_to_gemini loads (JObj response) = Inr out \<longrightarrow>
           (\<exists>parts usage.
              out = JObj [(''candidates'',
                            JArr [JObj [(''content'', JObj [(''parts'', JArr parts),
                                                            (''role'', JStr ''model'')]),
                                        (''finishReason'',
                                          JStr (if finish_reason = JStr ''stop''
                                                then ''STOP'' else ''OTHER'')),
                                        (''index'', JInt 0),
                                        (''safetyRatings'', JArr [])]]),
                          (''usageMetadata'', usage)]))"
proof (intro conjI impI allI)
  assume "target_response (JObj response)"
  then show "\<exists>out. convert_openai_to_gemini loads (JObj response) = Inr out"
    using choices by (rule convert_openai_to_gemini_target)
next
  fix out
  assume "convert_openai_to_gemini loads (JObj response) = Inr out"
  from openai_to_gemini_shape [OF this] choices reason
  show "\<exists>parts usage.
              out = JObj [(''candidates'',
                            JArr [JObj [(''content'', JObj [(''parts'', JArr parts),
                                                            (''role'', JStr ''model'')]),
                                        (''finishReason'',
                                          JStr (if finish_reason = JStr ''stop''
                                                then ''STOP'' else ''OTHER'')),
                                        (''index'', JInt 0),
                                        (''safetyRatings'', JArr [])]]),
                          (''usageMetadata'', usage)]"
    by auto
qed

text \<open>
  Claim C10. When the first choice has no \<^verbatim>\<open>finish_reason\<close> field, the candidate's
  \<^verbatim>\<open>finishReason\<close> is \<^verbatim>\<open>STOP\<close>: the default of the \<^verbatim>\<open>get\<close> is \<^verbatim>\<open>stop\<close>.
\<close>

theorem absent_finish_reason_is_stop:
  assumes choices: "map_of response ''choices'' = Some (JArr (JObj choice # others))"
    and reason: "map_of choice ''finish_reason'' = None"
  shows "(target_response (JObj response) \<longrightarrow>
            (\<exists>out. convert_openai_to_gemini loads (JObj response) = Inr out))
    \<and> (\<forall>out. convert_openai_to_gemini loads (JObj response) = Inr out \<longrightarrow>
           (\<exists>parts usage.
              out = JObj [(''candidates'',
                            JArr [JObj [(''content'', JObj [(''parts'', JArr parts),
                                                            (''role'', JStr ''model'')]),
                                        (''finishReason'', JStr ''STOP''),
                                        (''index'', JInt 0),
                                        (''safetyRatings'', JArr [])]]),
                          (''usageMetadata'', usage)]))"
proof (intro conjI impI allI)
  assume "target_response (JObj response)"
  then show "\<exists>out. convert_openai_to_gemini loads (JObj response) = Inr out"
    using choices by (rule convert_openai_to_gemini_target)
next
  fix out
  assume "convert_openai_to_gemini loads (JObj response) = Inr out"
  from openai_to_gemini_shape [OF this] choices reason
  show "\<exists>parts usage.
              out = JObj [(''candidates'',
                            JArr [JObj [(''content'', JObj [(''parts'', JArr parts),
                                                            (''role'', JStr ''model'')]),
                                        (''finishReason'', JStr ''STOP''),
                                        (''index'', JInt 0),
                                        (''safetyRatings'', JArr [])]]),
                          (''usageMetadata'', usage)]"
    by auto
qed


theorem finish_reason_mapping_witness:
  "\<exists>parts usage.
     convert_openai_to_gemini loads_example
       (JObj [(''choices'', JArr [JObj [(''message'', JObj [(''content'', JStr ''Hi'')]),
                                        (''finish_reason'', JStr ''length'')]])])
     = Inr (JObj [(''candidates'',
                    JArr [JObj [(''content'', JObj [(''parts'', JArr parts),
                                                    (''role'', JStr ''model'')]),
                                (''finishReason'', JStr ''OTHER''),
                                (''index'', JInt 0),
                                (''safetyRatings'', JArr [])]]),
                  (''usageMetadata'', usage)])"
proof -
  let ?choice = "[(''message'', JObj [(''content'', JStr ''Hi'')]), (''finish_reason'', JStr ''length'')]"
  let ?response = "[(''choices'', JArr [JObj ?choice])]"
  have wf: "target_response (JObj ?response)"
    by (simp add: absent_or_def)
  have choices: "map_of ?response ''choices'' = Some (JArr (JObj ?choice # []))"
    by simp
  have reason: "map_of ?choice ''finish_reason'' = Some (JStr ''length'')"
    by simp
  from finish_reason_mapping [OF choices reason, of loads_example] wf show ?thesis
    by auto
qed

theorem absent_finish_reason_is_stop_witness:
  "\<exists>parts usage.
     convert_openai_to_gemini loads_example
       (JObj [(''choices'', JArr [JObj [(''message'', JObj [(''content'', JStr ''Hi'')])]])])
     = Inr (JObj [(''candidates'',
                    JArr [JObj [(''content'', JObj [(''parts'', JArr parts),
                                                    (''role'', JStr ''model'')]),
                                (''finishReason'', JStr ''STOP''),
                                (''index'', JInt 0),
                                (''safetyRatings'', JArr [])]]),
                  (''usageMetadata'', usage)])"
proof -
  let ?choice = "[(''message'', JObj [(''content'', JStr ''Hi'')])]"
  let ?response = "[(''choices'', JArr [JObj ?choice])]"
  have wf: "target_response (JObj ?response)"
    by (simp add: absent_or_def)
  have choices: "map_of ?response ''choices'' = Some (JArr (JObj ?choice # []))"
    by simp
  have reason: "map_of ?choice ''finish_reason'' = None"
    by simp
  from absent_finish_reason_is_stop [OF choices reason, of loads_example] wf show ?thesis
    by auto
qed

lemma empty_choices_raise:
  assumes "map_of response ''choices'' = None \<or> map_of response ''choices'' = Some (JArr [])"
  shows "convert_openai_to_gemini loads (JObj response) =
           Inl (Raise Exception
                  ''Error converting OpenAI to Gemini format: No choices in OpenAI response'')"
  using assms
  by (auto simp add: convert_openai_to_gemini_def openai_to_gemini_try_def bind_res_def)

lemma message_parts_tool_calls:
  assumes calls: "map_of message ''tool_calls'' = Some (JArr (before @ [tc] @ after))"
    and step: "\<And>ps. tool_call_step loads tc ps = Inr (ps @ new)"
    and parts: "message_parts loads (JObj message) = Inr parts"
  shows "\<exists>ps1 ps2. parts = ps1 @ new @ ps2"
proof -
  from parts calls obtain parts1 where
    "for_loop (tool_call_step loads) (before @ [tc] @ after) parts1 = Inr parts"
    by (auto simp add: message_parts_def bind_res_eq_Inr py_for_def split: if_splits)
  from tool_call_loop_split [OF this step] show ?thesis by blast
qed

lemma openai_to_gemini_parts:
  assumes out: "convert_openai_to_gemini loads (JObj response) = Inr out"
    and choices: "map_of response ''choices'' = Some (JArr (JObj choice # others))"
    and message: "map_of choice ''message'' = Some message"
  shows "\<exists>parts finish usage.
     message_parts loads message = Inr parts \<and>
     out = JObj [(''candidates'',
                   JArr [JObj [(''content'', JObj [(''parts'', JArr parts),
                                                   (''role'', JStr ''model'')]),
                               (''finishReason'', JStr finish),
                               (''index'', JInt 0),
                               (''safetyRatings'', JArr [])]]),
                 (''usageMetadata'', usage)]"
proof -
  from out have "openai_to_gemini_try loads (JObj response) = Inr out"
    by (simp add: convert_openai_to_gemini_def split: sum.splits)
  then show ?thesis
    unfolding openai_to_gemini_try_def Let_def using choices message
    by (auto simp add: bind_res_eq_Inr split: if_splits)
qed

text \<open>
  Claim C9. A tool call whose \<^verbatim>\<open>function.arguments\<close> is a str that \<^verbatim>\<open>json.loads\<close>
  rejects raises nothing: its step appends the \<^verbatim>\<open>functionCall\<close> part with the name (or
  \<^verbatim>\<open>unknown\<close>) and with \<^verbatim>\<open>args\<close> the empty mapping. The calls before and after it are
  handled as they would be anyway, and a well-formed response with such a call is
  translated, with this part among the candidate's parts.
\<close>

theorem malformed_arguments_recovered:
  assumes callee: "map_of tool_call ''function'' = Some (JObj callee)"
    and arguments: "map_of callee ''arguments'' = Some (JStr arguments)"
    and invalid: "loads arguments = None"
  shows "tool_call_step loads (JObj tool_call) parts =
           Inr (parts @ [JObj [(''functionCall'',
                               JObj [(''name'', case map_of callee ''name'' of Some n \<Rightarrow> n
                                                | None \<Rightarrow> JStr ''unknown''),
                                     (''args'', JObj [])])]])
    \<and> for_loop (tool_call_step loads) (before @ [JObj tool_call] @ after) parts =
        bind_res (for_loop (tool_call_step loads) before parts) (\<lambda>ps.
          for_loop (tool_call_step loads) after
            (ps @ [JObj [(''functionCall'',
                          JObj [(''name'', case map_of callee ''name'' of Some n \<Rightarrow> n
                                           | None \<Rightarrow> JStr ''unknown''),
                                (''args'', JObj [])])]]))
    \<and> (target_response (JObj response)
         \<and> map_of response ''choices'' = Some (JArr (JObj choice # others))
         \<and> map_of choice ''message'' = Some (JObj message)
         \<and> map_of message ''tool_calls'' = Some (JArr (before @ [JObj tool_call] @ after))
       \<longrightarrow> (\<exists>ps1 ps2 finish usage.
              convert_openai_to_gemini loads (JObj response) =
                Inr (JObj [(''candidates'',
                             JArr [JObj [(''content'',
                                          JObj [(''parts'',
                                                 JArr (ps1 @ [JObj [(''functionCall'',
                                                   JObj [(''name'', case map_of callee ''name'' of
                                                                      Some n \<Rightarrow> n
                                                                    | None \<Rightarrow> JStr ''unknown''),
                                                         (''args'', JObj [])])]] @ ps2)),
                                                (''role'', JStr ''model'')]),
                                         (''finishReason'', JStr finish),
                                         (''index'', JInt 0),
                                         (''safetyRatings'', JArr [])]]),
                           (''usageMetadata'', usage)])))"
proof -
  let ?part = "JObj [(''functionCall'',
                      JObj [(''name'', case map_of callee ''name'' of Some n \<Rightarrow> n
                                       | None \<Rightarrow> JStr ''unknown''),
                            (''args'', JObj [])])]"
  have step: "tool_call_step loads (JObj tool_call) ps = Inr (ps @ [?part])" for ps
    using callee arguments invalid by (simp add: tool_call_step_def bind_res_def)
  have loop: "for_loop (tool_call_step loads) (before @ [JObj tool_call] @ after) parts =
        bind_res (for_loop (tool_call_step loads) before parts) (\<lambda>ps.
          for_loop (tool_call_step loads) after (ps @ [?part]))"
  proof -
    have "for_loop (tool_call_step loads) (JObj tool_call # after) =
        (\<lambda>ps. for_loop (tool_call_step loads) after (ps @ [?part]))"
      by (rule ext) (simp add: step)
    then show ?thesis
      by (simp add: for_loop_append)
  qed
  have "\<exists>ps1 ps2 finish usage.
      convert_openai_to_gemini loads (JObj response) =
        Inr (JObj [(''candidates'',
                     JArr [JObj [(''content'', JObj [(''parts'', JArr (ps1 @ [?part] @ ps2)),
                                                     (''role'', JStr ''model'')]),
                                 (''finishReason'', JStr finish),
                                 (''index'', JInt 0),
                                 (''safetyRatings'', JArr [])]]),
                   (''usageMetadata'', usage)])"
    if wf: "target_response (JObj response)"
      and choices: "map_of response ''choices'' = Some (JArr (JObj choice # others))"
      and message: "map_of choice ''message'' = Some (JObj message)"
      and calls: "map_of message ''tool_calls'' = Some (JArr (before @ [JObj tool_call] @ after))"
  proof -
    from convert_openai_to_gemini_target [OF wf choices, of loads] obtain out where
      out: "convert_openai_to_gemini loads (JObj response) = Inr out" by blast
    from openai_to_gemini_parts [OF out choices message] obtain ps finish usage where
      ps: "message_parts loads (JObj message) = Inr ps"
      and shape: "out = JObj [(''candidates'',
                     JArr [JObj [(''content'', JObj [(''parts'', JArr ps),
                                                     (''role'', JStr ''model'')]),
                                 (''finishReason'', JStr finish),
                                 (''index'', JInt 0),
                                 (''safetyRatings'', JArr [])]]),
                   (''usageMetadata'', usage)]"
      by blast
    from message_parts_tool_calls [OF calls step ps] obtain ps1 ps2 where
      "ps = ps1 @ [?part] @ ps2" by blast
    with out shape show ?thesis by blast
  qed
  with step loop show ?thesis by blast
qed

theorem malformed_arguments_recovered_witness:
  "\<exists>ps1 ps2 finish usage.
     convert_openai_to_gemini loads_example
       (JObj [(''choices'',
               JArr [JObj [(''message'',
                            JObj [(''content'', JNull),
                                  (''tool_calls'',
                                   JArr [JObj [(''function'',
                                               JObj [(''name'', JStr ''lookup''),
                                                     (''arguments'', JStr ''{oops'')])]])]),
                           (''finish_reason'', JStr ''tool_calls'')]])])
     = Inr (JObj [(''candidates'',
                    JArr [JObj [(''content'',
                                 JObj [(''parts'',
                                        JArr (ps1 @ [JObj [(''functionCall'',
                                                           JObj [(''name'', JStr ''lookup''),
                                                                 (''args'', JObj [])])]] @ ps2)),
                                       (''role'', JStr ''model'')]),
                                (''finishReason'', JStr finish),
                                (''index'', JInt 0),
                                (''safetyRatings'', JArr [])]]),
                  (''usageMetadata'', usage)])"
proof -
  let ?callee = "[(''name'', JStr ''lookup''), (''arguments'', JStr ''{oops'')]"
  let ?call = "[(''function'', JObj ?callee)]"
  let ?message = "[(''content'', JNull), (''tool_calls'', JArr [JObj ?call])]"
  let ?choice = "[(''message'', JObj ?message), (''finish_reason'', JStr ''tool_calls'')]"
  let ?response = "[(''choices'', JArr [JObj ?choice])]"
  have callee: "map_of ?call ''function'' = Some (JObj ?callee)"
    by simp
  have arguments: "map_of ?callee ''arguments'' = Some (JStr ''{oops'')"
    by simp
  have invalid: "loads_example ''{oops'' = None"
    by (simp add: loads_example_def)
  have wf: "target_response (JObj ?response)"
    by (simp add: absent_or_def)
  have choices: "map_of ?response ''choices'' = Some (JArr (JObj ?choice # []))"
    by simp
  have message: "map_of ?choice ''message'' = Some (JObj ?message)"
    by simp
  have calls: "map_of ?message ''tool_calls'' = Some (JArr ([] @ [JObj ?call] @ []))"
    by simp
  from malformed_arguments_recovered [where loads = loads_example and tool_call = ?call
        and callee = ?callee and arguments = "''{oops''" and response = ?response
        and choice = ?choice and others = "[]" and message = ?message
        and before = "[]" and after = "[]", OF callee arguments invalid]
    wf choices message calls
  show ?thesis by simp
qed

section \<open>The handler and the client connection\<close>

lemma then_step_None: "a c = (None, c') \<Longrightarrow> then_step a b c = b c'"
  by (simp add: then_step_def)

lemma then_step_Some: "a c = (Some e, c') \<Longrightarrow> then_step a b c = (Some e, c')"
  by (simp add: then_step_def)

lemma with_value_Inl: "with_value (Inl e) k c = (Some e, c)"
  by (simp add: with_value_def)

lemma with_value_Inr: "with_value (Inr x) k c = k x c"
  by (simp add: with_value_def)

lemma print_line_None: "print_line None c = (None, c)"
  by (simp add: print_line_def)

lemma print_line_Some: "print_line (Some e) c = (Some e, c)"
  by (simp add: print_line_def)

text \<open>A response whose two writes succeed reaches the client whole.\<close>

lemma write_response_sent:
  "write_response code None None v c =
     (None, c\<lparr>headers_buffer := [],
              wfile := wfile c @ [Head (headers_buffer c @
                                          [Status_line code,
                                           Header_line ''Content-Type'' ''application/json'',
                                           Header_line ''Access-Control-Allow-Origin'' ''*'',
                                           Blank_line]),
                                  Body v]\<rparr>)"
  by (simp add: write_response_def then_step_def send_response_def send_header_def
      end_headers_def write_json_def)

lemma write_response_body_lost:
  "write_response code None (Some e) v c =
     (Some e, c\<lparr>headers_buffer := [],
                wfile := wfile c @ [Head (headers_buffer c @
                                            [Status_line code,
                                             Header_line ''Content-Type'' ''application/json'',
                                             Header_line ''Access-Control-Allow-Origin'' ''*'',
                                             Blank_line])]\<rparr>)"
  by (simp add: write_response_def then_step_def send_response_def send_header_def
      end_headers_def write_json_def)

lemma write_response_codes:
  "set (status_codes (snd (write_response code f g v c))) \<subseteq> set (status_codes c) \<union> {code}"
  by (cases f; cases g)
     (auto simp add: write_response_def then_step_def send_response_def send_header_def
        end_headers_def write_json_def status_codes_def)

lemma then_step_codes:
  assumes "\<And>c. set (status_codes (snd (a c))) \<subseteq> set (status_codes c) \<union> S"
    and "\<And>c. set (status_codes (snd (b c))) \<subseteq> set (status_codes c) \<union> S"
  shows "set (status_codes (snd (then_step a b c))) \<subseteq> set (status_codes c) \<union> S"
proof (cases "a c")
  case (Pair r c')
  show ?thesis
  proof (cases r)
    case None
    with Pair have "then_step a b c = b c'" by (simp add: then_step_def)
    with assms(1) [of c] assms(2) [of c'] Pair show ?thesis by auto
  next
    case (Some e)
    with Pair have "then_step a b c = (Some e, c')" by (simp add: then_step_def)
    with assms(1) [of c] Pair show ?thesis by auto
  qed
qed

lemma with_value_codes:
  assumes "\<And>x c. set (status_codes (snd (k x c))) \<subseteq> set (status_codes c) \<union> S"
  shows "set (status_codes (snd (with_value m k c))) \<subseteq> set (status_codes c) \<union> S"
  using assms by (cases m) (auto simp add: with_value_def)

lemma print_line_codes:
  "set (status_codes (snd (print_line f c))) \<subseteq> set (status_codes c) \<union> S"
  by (auto simp add: print_line_def)

lemma post_try_codes:
  assumes "is_gemini_api_request path"
  shows "set (status_codes (snd (post_try rp model parse raises path read_body outbound c)))
           \<subseteq> set (status_codes c) \<union> {200}"
  unfolding post_try_def using assms
  by (simp only: not_True_eq_False if_False)
     (intro with_value_codes then_step_codes print_line_codes write_response_codes)

lemma post_except_codes:
  "set (status_codes (snd (post_except raises e c))) \<subseteq> set (status_codes c) \<union> {500}"
  unfolding post_except_def
  by (intro then_step_codes print_line_codes write_response_codes)

lemma do_POST_codes:
  assumes "is_gemini_api_request path"
  shows "set (status_codes (fst (do_POST rp model parse raises path read_body outbound)))
           \<subseteq> {200, 500}"
proof -
  let ?fresh = "\<lparr>headers_buffer = [], wfile = []\<rparr>"
  obtain r c where tried: "post_try rp model parse raises path read_body outbound ?fresh = (r, c)"
    by (cases "post_try rp model parse raises path read_body outbound ?fresh")
  from post_try_codes [OF assms, of rp model parse raises read_body outbound ?fresh] tried
  have c: "set (status_codes c) \<subseteq> {200}"
    by (simp add: status_codes_def)
  show ?thesis
  proof (cases r)
    case None
    with tried c show ?thesis by (auto simp add: do_POST_def)
  next
    case (Some e)
    obtain r' c' where exc: "post_except raises e c = (r', c')"
      by (cases "post_except raises e c")
    from post_except_codes [of raises e c] exc c have "set (status_codes c') \<subseteq> {200, 500}"
      by auto
    with tried Some exc show ?thesis
      by (cases r') (auto simp add: do_POST_def)
  qed
qed


text \<open>An exception before the response is written is answered by the \<^verbatim>\<open>except\<close> block alone.\<close>

lemma do_POST_failed_early:
  assumes tried: "post_try rp model parse raises path read_body outbound
                    \<lparr>headers_buffer = [], wfile = []\<rparr>
                  = (Some e, \<lparr>headers_buffer = [], wfile = []\<rparr>)"
    and quiet: "raises 114 = None" "raises 127 = None" "raises 128 = None"
  shows "do_POST rp model parse raises path read_body outbound =
           (\<lparr>headers_buffer = [],
              wfile = [Head [Status_line 500,
                             Header_line ''Content-Type'' ''application/json'',
                             Header_line ''Access-Control-Allow-Origin'' ''*'',
                             Blank_line],
                       Body (JObj [(''error'',
                                    JObj [(''code'', JInt 500),
                                          (''message'', JStr (''Proxy error: '' @ str_exc e)),
                                          (''status'', JStr ''INTERNAL_ERROR'')])])]\<rparr>, Returned)"
  by (simp add: do_POST_def tried post_except_def quiet print_line_None then_step_def
      write_response_sent)

text \<open>
  Claim C4. A POST is handled as a request of the source API exactly when its path
  contains \<^verbatim>\<open>generateContent\<close>, \<^verbatim>\<open>/v1/models/\<close> or \<^verbatim>\<open>/v1beta/\<close>. For any other path
  the handler writes (its two writes succeeding) the status 404 with the body
  \<^verbatim>\<open>{"error": "Not a Gemini API endpoint"}\<close> and returns; for a matching path every status
  line it produces is 200 or 500. \<^verbatim>\<open>/v1beta/models/foo:generateContent\<close> matches,
  \<^verbatim>\<open>/v1/chat/completions\<close> does not.
\<close>

theorem endpoint_recognition:
  "(is_gemini_api_request path \<longleftrightarrow>
      (\<exists>a b. path = a @ ''generateContent'' @ b) \<or>
      (\<exists>a b. path = a @ ''/v1/models/'' @ b) \<or>
      (\<exists>a b. path = a @ ''/v1beta/'' @ b))
   \<and> (\<not> is_gemini_api_request path \<and> raises 82 = None \<and> raises 83 = None \<longrightarrow>
        do_POST rp model parse raises path read_body outbound =
          (\<lparr>headers_buffer = [],
              wfile = [Head [Status_line 404,
                             Header_line ''Content-Type'' ''application/json'',
                             Header_line ''Access-Control-Allow-Origin'' ''*'',
                             Blank_line],
                       Body (JObj [(''error'', JStr ''Not a Gemini API endpoint'')])]\<rparr>, Returned))
   \<and> (is_gemini_api_request path \<longrightarrow>
        set (status_codes (fst (do_POST rp model parse raises path read_body outbound)))
          \<subseteq> {200, 500})
   \<and> is_gemini_api_request ''/v1beta/models/foo:generateContent''
   \<and> \<not> is_gemini_api_request ''/v1/chat/completions''"
proof (intro conjI impI)
  show "is_gemini_api_request path \<longleftrightarrow>
      (\<exists>a b. path = a @ ''generateContent'' @ b) \<or>
      (\<exists>a b. path = a @ ''/v1/models/'' @ b) \<or>
      (\<exists>a b. path = a @ ''/v1beta/'' @ b)"
    unfolding is_gemini_api_request_def str_in_iff ..
next
  assume "\<not> is_gemini_api_request path \<and> raises 82 = None \<and> raises 83 = None"
  then show "do_POST rp model parse raises path read_body outbound =
          (\<lparr>headers_buffer = [],
              wfile = [Head [Status_line 404,
                             Header_line ''Content-Type'' ''application/json'',
                             Header_line ''Access-Control-Allow-Origin'' ''*'',
                             Blank_line],
                       Body (JObj [(''error'', JStr ''Not a Gemini API endpoint'')])]\<rparr>, Returned)"
    by (simp add: do_POST_def post_try_def write_response_sent)
next
  assume "is_gemini_api_request path"
  then show "set (status_codes (fst (do_POST rp model parse raises path read_body outbound)))
          \<subseteq> {200, 500}"
    by (rule do_POST_codes)
next
  show "is_gemini_api_request ''/v1beta/models/foo:generateContent''"
    by (simp add: is_gemini_api_request_def)
next
  show "\<not> is_gemini_api_request ''/v1/chat/completions''"
    by (simp add: is_gemini_api_request_def)
qed

theorem endpoint_recognition_witness:
  "do_POST str_example ''gpt-4o'' parse_example no_raise ''/v1/chat/completions'' (Inr ''{}'')
      no_choices =
     (\<lparr>headers_buffer = [],
              wfile = [Head [Status_line 404,
                             Header_line ''Content-Type'' ''application/json'',
                             Header_line ''Access-Control-Allow-Origin'' ''*'',
                             Blank_line],
                       Body (JObj [(''error'', JStr ''Not a Gemini API endpoint'')])]\<rparr>, Returned)
   \<and> set (status_codes (fst (do_POST str_example ''gpt-4o'' parse_example no_raise
        ''/v1beta/models/foo:generateContent'' (Inr ''{}'') no_choices))) \<subseteq> {200, 500}"
proof -
  have no: "\<not> is_gemini_api_request ''/v1/chat/completions''"
    by (simp add: is_gemini_api_request_def)
  have yes: "is_gemini_api_request ''/v1beta/models/foo:generateContent''"
    by (simp add: is_gemini_api_request_def)
  have quiet: "no_raise 82 = None \<and> no_raise 83 = None"
    by (simp add: no_raise_def)
  have first: "do_POST str_example ''gpt-4o'' parse_example no_raise ''/v1/chat/completions''
      (Inr ''{}'') no_choices =
     (\<lparr>headers_buffer = [],
              wfile = [Head [Status_line 404,
                             Header_line ''Content-Type'' ''application/json'',
                             Header_line ''Access-Control-Allow-Origin'' ''*'',
                             Blank_line],
                       Body (JObj [(''error'', JStr ''Not a Gemini API endpoint'')])]\<rparr>, Returned)"
    using endpoint_recognition [where path = "''/v1/chat/completions''" and rp = str_example
        and model = "''gpt-4o''" and parse = parse_example and raises = no_raise
        and read_body = "Inr ''{}''" and outbound = no_choices] no quiet
    by blast
  have second: "set (status_codes (fst (do_POST str_example ''gpt-4o'' parse_example no_raise
        ''/v1beta/models/foo:generateContent'' (Inr ''{}'') no_choices))) \<subseteq> {200, 500}"
    using endpoint_recognition [where path = "''/v1beta/models/foo:generateContent''"
        and rp = str_example and model = "''gpt-4o''" and parse = parse_example
        and raises = no_raise and read_body = "Inr ''{}''" and outbound = no_choices] yes
    by blast
  from first second show ?thesis by blast
qed

text \<open>
  Claim C2. A response mapping whose \<^verbatim>\<open>choices\<close> field is absent or the empty list is
  not translated: the translation raises the exception with the text
  \<^verbatim>\<open>No choices in OpenAI response\<close> (wrapped by the function's own handler). In the
  handler nothing has been written at that point; the \<^verbatim>\<open>except\<close> block, its print and
  writes succeeding, sends status 500 and the envelope whose \<^verbatim>\<open>status\<close> is
  \<^verbatim>\<open>INTERNAL_ERROR\<close>, and the handler returns.
\<close>

theorem empty_choices_error:
  assumes "map_of response ''choices'' = None \<or> map_of response ''choices'' = Some (JArr [])"
  shows "convert_openai_to_gemini loads (JObj response) =
           Inl (Raise Exception
                  ''Error converting OpenAI to Gemini format: No choices in OpenAI response'')
    \<and> (is_gemini_api_request path \<and> read_body = Inr request_body
         \<and> parse request_body = Inr gemini_request
         \<and> convert_gemini_to_openai rp model gemini_request = Inr openai_request
         \<and> outbound openai_request = Inr (JObj response)
         \<and> raises 90 = None \<and> raises 96 = None
         \<and> raises 114 = None \<and> raises 127 = None \<and> raises 128 = None
       \<longrightarrow> do_POST rp model parse raises path read_body outbound =
             (\<lparr>headers_buffer = [],
              wfile = [Head [Status_line 500,
                             Header_line ''Content-Type'' ''application/json'',
                             Header_line ''Access-Control-Allow-Origin'' ''*'',
                             Blank_line],
                       Body (JObj [(''error'',
                                    JObj [(''code'', JInt 500),
                                          (''message'', JStr (''Proxy error: Error converting OpenAI to Gemini format: No choices in OpenAI response'')),
                                          (''status'', JStr ''INTERNAL_ERROR'')])])]\<rparr>, Returned))"
proof (intro conjI impI)
  show "convert_openai_to_gemini loads (JObj response) =
           Inl (Raise Exception
                  ''Error converting OpenAI to Gemini format: No choices in OpenAI response'')"
    using assms by (rule empty_choices_raise)
  assume h: "is_gemini_api_request path \<and> read_body = Inr request_body
         \<and> parse request_body = Inr gemini_request
         \<and> convert_gemini_to_openai rp model gemini_request = Inr openai_request
         \<and> outbound openai_request = Inr (JObj response)
         \<and> raises 90 = None \<and> raises 96 = None
         \<and> raises 114 = None \<and> raises 127 = None \<and> raises 128 = None"
  have raised: "convert_openai_to_gemini (loads_of parse) (JObj response) =
           Inl (Raise Exception
                  ''Error converting OpenAI to Gemini format: No choices in OpenAI response'')"
    using assms by (rule empty_choices_raise)
  from h have "post_try rp model parse raises path read_body outbound
                 \<lparr>headers_buffer = [], wfile = []\<rparr>
      = (Some (Raise Exception
                 ''Error converting OpenAI to Gemini format: No choices in OpenAI response''),
         \<lparr>headers_buffer = [], wfile = []\<rparr>)"
    by (simp add: post_try_def with_value_def then_step_def print_line_def raised)
  from do_POST_failed_early [OF this] h
  show "do_POST rp model parse raises path read_body outbound =
             (\<lparr>headers_buffer = [],
              wfile = [Head [Status_line 500,
                             Header_line ''Content-Type'' ''application/json'',
                             Header_line ''Access-Control-Allow-Origin'' ''*'',
                             Blank_line],
                       Body (JObj [(''error'',
                                    JObj [(''code'', JInt 500),
                                          (''message'', JStr (''Proxy error: Error converting OpenAI to Gemini format: No choices in OpenAI response'')),
                                          (''status'', JStr ''INTERNAL_ERROR'')])])]\<rparr>, Returned)"
    by simp
qed

theorem empty_choices_error_witness:
  "do_POST str_example ''gpt-4o'' parse_example no_raise ''/v1beta/models/foo:generateContent''
     (Inr ''{}'') no_choices =
     (\<lparr>headers_buffer = [],
              wfile = [Head [Status_line 500,
                             Header_line ''Content-Type'' ''application/json'',
                             Header_line ''Access-Control-Allow-Origin'' ''*'',
                             Blank_line],
                       Body (JObj [(''error'',
                                    JObj [(''code'', JInt 500),
                                          (''message'', JStr (''Proxy error: Error converting OpenAI to Gemini format: No choices in OpenAI response'')),
                                          (''status'', JStr ''INTERNAL_ERROR'')])])]\<rparr>, Returned)"
proof -
  let ?openai = "JObj [(''model'', JStr ''gpt-4o''), (''messages'', JArr []), (''stream'', JBool False),
                       (''temperature'', JFloat 0x3FB999999999999A), (''max_tokens'', JInt 4000)]"
  have empty: "map_of [(''choices'', JArr [])] ''choices'' = None
      \<or> map_of [(''choices'', JArr [])] ''choices'' = Some (JArr [])"
    by simp
  have path: "is_gemini_api_request ''/v1beta/models/foo:generateContent''"
    by (simp add: is_gemini_api_request_def)
  have parsed: "parse_example ''{}'' = Inr (JObj [])"
    by (simp add: parse_example_def)
  have request: "convert_gemini_to_openai str_example ''gpt-4o'' (JObj []) = Inr ?openai"
    by (simp add: convert_gemini_to_openai_def gemini_to_openai_try_def py_for_def bind_res_def)
  have reply: "no_choices ?openai = Inr (JObj [(''choices'', JArr [])])"
    by (simp add: no_choices_def)
  have quiet: "no_raise 90 = None \<and> no_raise 96 = None
      \<and> no_raise 114 = None \<and> no_raise 127 = None \<and> no_raise 128 = None"
    by (simp add: no_raise_def)
  from empty_choices_error [OF empty, where path = "''/v1beta/models/foo:generateContent''"
      and read_body = "Inr ''{}''" and request_body = "''{}''" and parse = parse_example
      and gemini_request = "JObj []" and rp = str_example and model = "''gpt-4o''"
      and openai_request = ?openai and outbound = no_choices and raises = no_raise]
    path parsed request reply quiet
  show ?thesis by blast
qed





text \<open>
  When the write of the translated response raises, the \<^verbatim>\<open>except\<close> block sends its 500
  response after the 200 headers that are already with the client.
\<close>

lemma failure_after_headers:
  assumes "is_gemini_api_request path" "read_body = Inr b" "parse b = Inr g"
    and "convert_gemini_to_openai rp model g = Inr q" "outbound q = Inr r"
    and "convert_openai_to_gemini (loads_of parse) r = Inr out"
    and "raises 90 = None" "raises 96 = None" "raises 104 = None" "raises 110 = None"
    and "raises 111 = Some e"
    and "raises 114 = None" "raises 127 = None" "raises 128 = None"
  shows "do_POST rp model parse raises path read_body outbound =
     (\<lparr>headers_buffer = [],
       wfile = [Head [Status_line 200,
                      Header_line ''Content-Type'' ''application/json'',
                      Header_line ''Access-Control-Allow-Origin'' ''*'',
                      Blank_line],
                Head [Status_line 500,
                      Header_line ''Content-Type'' ''application/json'',
                      Header_line ''Access-Control-Allow-Origin'' ''*'',
                      Blank_line],
                Body (JObj [(''error'',
                             JObj [(''code'', JInt 500),
                                   (''message'', JStr (''Proxy error: '' @ str_exc e)),
                                   (''status'', JStr ''INTERNAL_ERROR'')])])]\<rparr>,
      Returned)"
proof -
  let ?sent = "\<lparr>headers_buffer = [],
                wfile = [Head [Status_line 200,
                               Header_line ''Content-Type'' ''application/json'',
                               Header_line ''Access-Control-Allow-Origin'' ''*'',
                               Blank_line]]\<rparr>"
  have tried: "post_try rp model parse raises path read_body outbound
                 \<lparr>headers_buffer = [], wfile = []\<rparr> = (Some e, ?sent)"
    using assms(1-11)
    by (simp add: post_try_def with_value_def then_step_def print_line_def
        write_response_body_lost)
  have answered: "post_except raises e ?sent =
     (None,
      \<lparr>headers_buffer = [],
       wfile = [Head [Status_line 200,
                      Header_line ''Content-Type'' ''application/json'',
                      Header_line ''Access-Control-Allow-Origin'' ''*'',
                      Blank_line],
                Head [Status_line 500,
                      Header_line ''Content-Type'' ''application/json'',
                      Header_line ''Access-Control-Allow-Origin'' ''*'',
                      Blank_line],
                Body (JObj [(''error'',
                             JObj [(''code'', JInt 500),
                                   (''message'', JStr (''Proxy error: '' @ str_exc e)),
                                   (''status'', JStr ''INTERNAL_ERROR'')])])]\<rparr>)"
    using assms(12-14)
    by (simp add: post_except_def then_step_def print_line_def write_response_sent)
  show ?thesis
    by (simp add: do_POST_def tried answered)
qed

text \<open>When nothing raises, the client gets the translated response with status 200.\<close>

lemma do_POST_translated:
  assumes "is_gemini_api_request path" "read_body = Inr b" "parse b = Inr g"
    and "convert_gemini_to_openai rp model g = Inr q" "outbound q = Inr r"
    and "convert_openai_to_gemini (loads_of parse) r = Inr out"
    and "raises 90 = None" "raises 96 = None" "raises 104 = None" "raises 110 = None"
    and "raises 111 = None"
  shows "do_POST rp model parse raises path read_body outbound =
     (\<lparr>headers_buffer = [],
       wfile = [Head [Status_line 200,
                      Header_line ''Content-Type'' ''application/json'',
                      Header_line ''Access-Control-Allow-Origin'' ''*'',
                      Blank_line],
                Body out]\<rparr>,
      Returned)"
  using assms
  by (simp add: do_POST_def post_try_def with_value_def then_step_def
      print_line_def write_response_sent)

end
